theory Spec2Isabelle
  imports Main
begin

section \<open>JavaScript values used by the application\<close>

subsection \<open>Strings\<close>

text \<open>
  A JavaScript string is a sequence of UTF-16 code units, and \<open>length\<close>, \<open>trim\<close>,
  \<open>split\<close>, \<open>startsWith\<close> and \<open>replace\<close> all work on code units. The model keeps a string
  as the list of its code units (natural numbers below \<open>0x10000\<close>). \<open>js\<close> turns an ASCII
  literal into such a list; a code unit outside ASCII is written as a number.
\<close>

type_synonym jsstring = "nat list"

definition js :: "string \<Rightarrow> jsstring" where
  "js s = map of_char s"

text \<open>
  \<open>String.prototype.trim\<close> removes the ECMAScript \<open>WhiteSpace\<close> and \<open>LineTerminator\<close> code
  points from both ends: TAB, VT, FF, SP, NBSP, ZWNBSP, the Unicode space separators, and
  LF, CR, LS, PS. All of them are single code units.
\<close>

definition isWhiteSpace :: "nat \<Rightarrow> bool" where
  "isWhiteSpace c \<longleftrightarrow>
     c = 0x09 \<or> c = 0x0A \<or> c = 0x0B \<or> c = 0x0C \<or> c = 0x0D \<or> c = 0x20 \<or> c = 0xA0 \<or>
     c = 0x1680 \<or> (0x2000 \<le> c \<and> c \<le> 0x200A) \<or> c = 0x2028 \<or> c = 0x2029 \<or>
     c = 0x202F \<or> c = 0x205F \<or> c = 0x3000 \<or> c = 0xFEFF"

definition trimStart :: "jsstring \<Rightarrow> jsstring" where
  "trimStart s = dropWhile isWhiteSpace s"

definition trimEnd :: "jsstring \<Rightarrow> jsstring" where
  "trimEnd s = rev (dropWhile isWhiteSpace (rev s))"

definition trim :: "jsstring \<Rightarrow> jsstring" where
  "trim s = trimEnd (trimStart s)"

text \<open>
  \<open>s.split(sep)\<close> for a separator of one code unit: the pieces between the separators, in
  order. \<open>cur\<close> is the piece being read. The result is never empty (\<open>''.split('\n')\<close> is
  \<open>['']\<close>).
\<close>

fun splitFrom :: "nat \<Rightarrow> jsstring \<Rightarrow> jsstring \<Rightarrow> jsstring list" where
  "splitFrom sep cur [] = [cur]"
| "splitFrom sep cur (c # cs) =
     (if c = sep then cur # splitFrom sep [] cs else splitFrom sep (cur @ [c]) cs)"

definition splitOn :: "nat \<Rightarrow> jsstring \<Rightarrow> jsstring list" where
  "splitOn sep s = splitFrom sep [] s"

definition startsWith :: "jsstring \<Rightarrow> jsstring \<Rightarrow> bool" where
  "startsWith s pre \<longleftrightarrow> take (length pre) s = pre"

text \<open>
  \<open>line.replace(/\*\*/g, '')\<close>: every match of two asterisks (code unit \<open>0x2A\<close>), found from
  left to right without overlap in the original string, is removed.
\<close>

fun stripMarkers :: "jsstring \<Rightarrow> jsstring" where
  "stripMarkers (c # d # cs) =
     (if c = 0x2A \<and> d = 0x2A then stripMarkers cs else c # stripMarkers (d # cs))"
| "stripMarkers cs = cs"

subsection \<open>Arrays\<close>

text \<open>
  \<open>Array.prototype.find\<close> returns the first element that satisfies the predicate, or
  \<open>undefined\<close> (here \<open>None\<close>); \<open>findIndex\<close> returns its index, or \<open>-1\<close>. Reading \<open>xs[k]\<close> at
  an integer \<open>k\<close> that is negative or not below the length gives \<open>undefined\<close>.
\<close>

fun array_find :: "('a \<Rightarrow> bool) \<Rightarrow> 'a list \<Rightarrow> 'a option" where
  "array_find P [] = None"
| "array_find P (x # xs) = (if P x then Some x else array_find P xs)"

fun findIndexFrom :: "int \<Rightarrow> ('a \<Rightarrow> bool) \<Rightarrow> 'a list \<Rightarrow> int" where
  "findIndexFrom k P [] = - 1"
| "findIndexFrom k P (x # xs) = (if P x then k else findIndexFrom (k + 1) P xs)"

definition array_findIndex :: "('a \<Rightarrow> bool) \<Rightarrow> 'a list \<Rightarrow> int" where
  "array_findIndex P xs = findIndexFrom 0 P xs"

definition array_get :: "'a list \<Rightarrow> int \<Rightarrow> 'a option" where
  "array_get xs k = (if 0 \<le> k \<and> k < int (length xs) then Some (xs ! nat k) else None)"

section \<open>The pattern dataset\<close>

text \<open>
  \<open>SecurityPattern\<close> is the interface of \<open>patterns.ts\<close>. The field \<open>id\<close> is written \<open>id'\<close>
  (\<open>id\<close> is the identity function of HOL); a reference \<open>{title, url}\<close> is the pair of its two
  strings.
\<close>

datatype Severity = critical | high | medium

record SecurityPattern =
  id' :: jsstring
  title :: jsstring
  description :: jsstring
  severity :: Severity
  category :: jsstring
  explanation :: jsstring
  vulnerableCode :: jsstring
  secureCode :: jsstring
  vulnerableExplanation :: jsstring
  secureExplanation :: jsstring
  attackScenario :: jsstring
  prevention :: "jsstring list"
  references :: "(jsstring \<times> jsstring) list"

text \<open>
  The six records of \<open>securityPatterns\<close>, in the order of the array literal, each with the
  text of every field as authored.
\<close>

definition pattern_missing_signer_check :: SecurityPattern where
  \<open>pattern_missing_signer_check = \<lparr>
    id' = js ''missing-signer-check'',
    title = js ''Missing Signer Verification'',
    description = js ''Failing to verify that critical accounts have signed the transaction, allowing unauthorized actions.'',
    severity = critical,
    category = js ''Account Validation'',
    explanation = js ''
One of the most fundamental security checks in Solana programs is verifying that accounts have actually signed the transaction. Without this check, anyone can pass any public key as an "authority" account and perform unauthorized actions.

In Solana's account model, each account in a transaction has an `is_signer` flag that indicates whether the account's private key was used to sign the transaction. Programs MUST check this flag for any account that should have authority over an action.

This vulnerability is particularly dangerous because:
1. It allows complete bypass of access control
2. Attackers can drain funds, modify state, or take ownership
3. The exploit is trivial to execute once discovered
    '',
    vulnerableCode = js ''use anchor_lang::prelude::*;

declare_id!("Vuln111111111111111111111111111111111111111");

#[program]
pub mod vulnerable_signer {
    use super::*;

    // '' @ [0x274C] @ js '' VULNERABLE: No signer verification!
    // Anyone can call this and pass ANY pubkey as authority
    pub fn withdraw(ctx: Context<Withdraw>, amount: u64) -> Result<()> {
        // This will succeed even if 'authority' didn't sign!
        let vault = &mut ctx.accounts.vault;
        
        // Attacker can pass victim's pubkey as authority
        // and drain their vault without their signature
        vault.balance = vault.balance.checked_sub(amount)
            .ok_or(ErrorCode::InsufficientFunds)?;
        
        // Transfer funds to attacker...
        msg!("Withdrew {} lamports", amount);
        Ok(())
    }
}

#[derive(Accounts)]
pub struct Withdraw<'info> {
    #[account(mut)]
    pub vault: Account<'info, Vault>,
    
    // '' @ [0x274C] @ js '' VULNERABLE: No Signer constraint!
    // This account is NOT required to sign the transaction
    /// CHECK: This should be the vault authority but isn't verified
    pub authority: AccountInfo<'info>,
}

#[account]
pub struct Vault {
    pub authority: Pubkey,
    pub balance: u64,
}

#[error_code]
pub enum ErrorCode {
    #[msg("Insufficient funds in vault")]
    InsufficientFunds,
}'',
    secureCode = js ''use anchor_lang::prelude::*;

declare_id!("Secure1111111111111111111111111111111111111");

#[program]
pub mod secure_signer {
    use super::*;

    // '' @ [0x2705] @ js '' SECURE: Proper signer verification
    pub fn withdraw(ctx: Context<Withdraw>, amount: u64) -> Result<()> {
        let vault = &mut ctx.accounts.vault;
        
        // Additional check: verify authority matches vault's stored authority
        // This is defense-in-depth alongside the Signer constraint
        require_keys_eq!(
            ctx.accounts.authority.key(),
            vault.authority,
            ErrorCode::UnauthorizedAuthority
        );
        
        vault.balance = vault.balance.checked_sub(amount)
            .ok_or(ErrorCode::InsufficientFunds)?;
        
        msg!("Withdrew {} lamports", amount);
        Ok(())
    }
}

#[derive(Accounts)]
pub struct Withdraw<'info> {
    #[account(mut)]
    pub vault: Account<'info, Vault>,
    
    // '' @ [0x2705] @ js '' SECURE: Signer constraint ensures this account signed the tx
    // The transaction will fail if authority didn't sign
    #[account(
        constraint = authority.key() == vault.authority @ ErrorCode::UnauthorizedAuthority
    )]
    pub authority: Signer<'info>,
}

#[account]
pub struct Vault {
    pub authority: Pubkey,
    pub balance: u64,
}

#[error_code]
pub enum ErrorCode {
    #[msg("Insufficient funds in vault")]
    InsufficientFunds,
    #[msg("Unauthorized authority for this vault")]
    UnauthorizedAuthority,
}'',
    vulnerableExplanation = js ''
**What's Wrong:**
- The `authority` account uses `AccountInfo<'info>` with no constraints
- There's no `Signer` type or `is_signer` check
- Anyone can pass any public key as the authority
- The program blindly trusts the passed account

**Attack Vector:**
1. Attacker finds a vault with funds
2. Attacker creates a transaction passing the victim's pubkey as authority
3. Since no signature is required, the transaction succeeds
4. Attacker drains the vault
    '',
    secureExplanation = js ''
**Security Measures:**
1. **Signer<'info> type**: Anchor automatically verifies the account signed the transaction
2. **Constraint check**: Verifies the signer matches the vault's stored authority
3. **Custom error**: Provides clear feedback on authorization failures

**Why This Works:**
- Solana runtime enforces that Signer accounts must have signed
- The constraint provides defense-in-depth
- Even if an attacker knows the authority pubkey, they can't sign without the private key
    '',
    attackScenario = js ''
**Real-World Attack Scenario:**

1. A DeFi protocol has a vault system where users deposit funds
2. The withdraw function doesn't verify signers
3. Attacker scans the blockchain for vaults with significant balances
4. For each vault, attacker:
   - Reads the vault's authority pubkey from account data
   - Constructs a withdraw transaction with that pubkey
   - Signs only with their own keypair (not the authority)
   - Submits the transaction
5. All vaults are drained in minutes

**Historical Example:** This exact vulnerability has led to millions in losses across various Solana protocols.
    '',
    prevention = [
      js ''Always use Signer<'info> for accounts that must authorize actions'',
      js ''Add constraint checks to verify the signer matches stored authority'',
      js ''Use Anchor's has_one constraint for automatic authority matching'',
      js ''Implement defense-in-depth with multiple validation layers'',
      js ''Audit all instruction handlers for missing signer checks''
    ],
    references = [
      (js ''Anchor Signer Documentation'', js ''https://www.anchor-lang.com/docs/account-types#signer''),
      (js ''Solana Account Model'', js ''https://solana.com/docs/core/accounts'')
    ]
  \<rparr>\<close>

definition pattern_missing_owner_check :: SecurityPattern where
  \<open>pattern_missing_owner_check = \<lparr>
    id' = js ''missing-owner-check'',
    title = js ''Missing Account Owner Verification'',
    description = js ''Not verifying that an account is owned by the expected program, allowing fake account injection.'',
    severity = critical,
    category = js ''Account Validation'',
    explanation = js ''
Every account on Solana has an "owner" field that indicates which program has write access to it. When your program reads data from an account, you MUST verify the account is owned by the expected program.

Without owner verification, an attacker can:
1. Create a fake account with malicious data
2. Set themselves as the owner
3. Pass this fake account to your program
4. Your program reads the fake data as if it were legitimate

This is especially dangerous when reading token accounts, PDAs, or any account your program didn't create in the same transaction.
    '',
    vulnerableCode = js ''use anchor_lang::prelude::*;
use anchor_spl::token::TokenAccount;

declare_id!("Vuln222222222222222222222222222222222222222");

#[program]
pub mod vulnerable_owner {
    use super::*;

    // '' @ [0x274C] @ js '' VULNERABLE: No owner verification on price feed
    pub fn swap(ctx: Context<Swap>, amount_in: u64) -> Result<()> {
        // Reading price from unverified account!
        // Attacker can pass a fake account with manipulated price
        let price_data = ctx.accounts.price_feed.try_borrow_data()?;
        let price = u64::from_le_bytes(
            price_data[0..8].try_into().unwrap()
        );
        
        // Calculate output based on potentially fake price
        let amount_out = amount_in
            .checked_mul(price)
            .ok_or(ErrorCode::MathOverflow)?
            .checked_div(1_000_000)
            .ok_or(ErrorCode::MathOverflow)?;
        
        msg!("Swapping {} for {} at price {}", amount_in, amount_out, price);
        
        // Transfer would happen here...
        // Attacker gets way more tokens than they should!
        
        Ok(())
    }
}

#[derive(Accounts)]
pub struct Swap<'info> {
    #[account(mut)]
    pub user: Signer<'info>,
    
    #[account(mut)]
    pub user_token_in: Account<'info, TokenAccount>,
    
    #[account(mut)]
    pub user_token_out: Account<'info, TokenAccount>,
    
    // '' @ [0x274C] @ js '' VULNERABLE: No owner check!
    // Anyone can create an account with fake price data
    /// CHECK: Should be verified but isn't
    pub price_feed: AccountInfo<'info>,
}

#[error_code]
pub enum ErrorCode {
    #[msg("Math overflow")]
    MathOverflow,
}'',
    secureCode = js ''use anchor_lang::prelude::*;
use anchor_spl::token::TokenAccount;

declare_id!("Secure2222222222222222222222222222222222222");

// Define the expected oracle program ID
pub const ORACLE_PROGRAM_ID: Pubkey = pubkey!("Oracle11111111111111111111111111111111111");

#[program]
pub mod secure_owner {
    use super::*;

    // '' @ [0x2705] @ js '' SECURE: Proper owner verification
    pub fn swap(ctx: Context<Swap>, amount_in: u64) -> Result<()> {
        // Now we can trust the price data because we verified the owner
        let price_data = ctx.accounts.price_feed.try_borrow_data()?;
        let price = u64::from_le_bytes(
            price_data[0..8].try_into().unwrap()
        );
        
        // Additional validation: check price is within reasonable bounds
        require!(
            price > 0 && price < 1_000_000_000_000,
            ErrorCode::InvalidPrice
        );
        
        let amount_out = amount_in
            .checked_mul(price)
            .ok_or(ErrorCode::MathOverflow)?
            .checked_div(1_000_000)
            .ok_or(ErrorCode::MathOverflow)?;
        
        msg!("Swapping {} for {} at verified price {}", amount_in, amount_out, price);
        
        Ok(())
    }
}

#[derive(Accounts)]
pub struct Swap<'info> {
    #[account(mut)]
    pub user: Signer<'info>,
    
    #[account(mut)]
    pub user_token_in: Account<'info, TokenAccount>,
    
    #[account(mut)]
    pub user_token_out: Account<'info, TokenAccount>,
    
    // '' @ [0x2705] @ js '' SECURE: Owner constraint verifies the account is owned by oracle
    // Attacker cannot create fake accounts owned by the oracle program
    #[account(
        owner = ORACLE_PROGRAM_ID @ ErrorCode::InvalidPriceFeedOwner
    )]
    /// CHECK: Owner is verified to be the oracle program
    pub price_feed: AccountInfo<'info>,
    
    // Alternative: Use a typed account if you control the oracle
    // #[account(
    //     has_one = oracle_authority,
    //     owner = crate::ID
    // )]
    // pub price_feed: Account<'info, PriceFeed>,
}

#[account]
pub struct PriceFeed {
    pub oracle_authority: Pubkey,
    pub price: u64,
    pub last_update: i64,
    pub confidence: u64,
}

#[error_code]
pub enum ErrorCode {
    #[msg("Math overflow")]
    MathOverflow,
    #[msg("Invalid price feed owner")]
    InvalidPriceFeedOwner,
    #[msg("Price is invalid or out of bounds")]
    InvalidPrice,
}'',
    vulnerableExplanation = js ''
**What's Wrong:**
- The `price_feed` account has no owner verification
- Uses raw `AccountInfo` without constraints
- Attacker can create their own account with fake price data
- Program reads and trusts this manipulated data

**Attack Vector:**
1. Attacker creates an account they own
2. Writes fake price data (e.g., 1000x the real price)
3. Passes this fake account as the price feed
4. Program calculates swap based on fake price
5. Attacker receives 1000x more tokens than they should
    '',
    secureExplanation = js ''
**Security Measures:**
1. **Owner constraint**: Verifies account is owned by the oracle program
2. **Price bounds check**: Additional validation for reasonable values
3. **Custom error**: Clear feedback on validation failures

**Why This Works:**
- Only the oracle program can create accounts it owns
- Attacker cannot forge the owner field
- Even if attacker finds a bug in the oracle, bounds checking provides defense
    '',
    attackScenario = js ''
**Real-World Attack Scenario:**

1. A DEX uses an oracle for price feeds
2. The swap function doesn't verify the price feed owner
3. Attacker:
   - Creates a new account with their keypair
   - Writes data: price = 1,000,000 (1000x real price)
   - Calls swap with 1 token in, fake price feed
   - Receives 1000 tokens out instead of 1
4. Attacker repeats until pool is drained

**Impact:** This vulnerability has caused millions in losses in DeFi protocols.
    '',
    prevention = [
      js ''Always verify account owners using owner constraint'',
      js ''Use typed Account<'info, T> when possible for automatic owner checks'',
      js ''Validate data bounds even after owner verification'',
      js ''Use PDAs derived from your program for trusted accounts'',
      js ''Document expected owners in account structs''
    ],
    references = [
      (js ''Anchor Owner Constraint'', js ''https://www.anchor-lang.com/docs/account-constraints''),
      (js ''Solana Account Ownership'', js ''https://solana.com/docs/core/accounts#ownership'')
    ]
  \<rparr>\<close>

definition pattern_integer_overflow :: SecurityPattern where
  \<open>pattern_integer_overflow = \<lparr>
    id' = js ''integer-overflow'',
    title = js ''Integer Overflow/Underflow'',
    description = js ''Arithmetic operations that can wrap around, leading to unexpected values and fund theft.'',
    severity = critical,
    category = js ''Arithmetic Safety'',
    explanation = js ''
Integer overflow occurs when an arithmetic operation produces a value larger than the maximum the type can hold. In Rust, this behavior depends on the build mode:

- **Debug mode**: Panics on overflow (safe but crashes)
- **Release mode**: Wraps around silently (DANGEROUS!)

Since Solana programs run in release mode, unchecked arithmetic can lead to:
- Balances wrapping from max to 0 or vice versa
- Negative amounts becoming huge positive numbers
- Reward calculations producing unexpected results

This is one of the most common vulnerabilities in smart contracts across all blockchains.
    '',
    vulnerableCode = js ''use anchor_lang::prelude::*;

declare_id!("Vuln333333333333333333333333333333333333333");

#[program]
pub mod vulnerable_overflow {
    use super::*;

    // '' @ [0x274C] @ js '' VULNERABLE: Unchecked arithmetic operations
    pub fn deposit(ctx: Context<Deposit>, amount: u64) -> Result<()> {
        let vault = &mut ctx.accounts.vault;
        
        // '' @ [0x274C] @ js '' VULNERABLE: Can overflow!
        // If vault.balance = u64::MAX - 100 and amount = 200
        // Result wraps to 99 instead of failing!
        vault.balance = vault.balance + amount;
        
        msg!("Deposited {}. New balance: {}", amount, vault.balance);
        Ok(())
    }

    // '' @ [0x274C] @ js '' VULNERABLE: Unchecked subtraction
    pub fn withdraw(ctx: Context<Withdraw>, amount: u64) -> Result<()> {
        let vault = &mut ctx.accounts.vault;
        
        // '' @ [0x274C] @ js '' VULNERABLE: Can underflow!
        // If vault.balance = 100 and amount = 200
        // Result wraps to u64::MAX - 99 (massive number!)
        vault.balance = vault.balance - amount;
        
        msg!("Withdrew {}. New balance: {}", amount, vault.balance);
        Ok(())
    }

    // '' @ [0x274C] @ js '' VULNERABLE: Unchecked multiplication in rewards
    pub fn calculate_rewards(ctx: Context<CalculateRewards>) -> Result<()> {
        let staking = &mut ctx.accounts.staking;
        let clock = Clock::get()?;
        
        let time_staked = clock.unix_timestamp - staking.start_time;
        
        // '' @ [0x274C] @ js '' VULNERABLE: Multiplication can overflow!
        // Large stake * high rate * long time = overflow
        let rewards = staking.amount * staking.rate * time_staked as u64;
        
        staking.pending_rewards = rewards;
        msg!("Calculated rewards: {}", rewards);
        Ok(())
    }
}

#[derive(Accounts)]
pub struct Deposit<'info> {
    #[account(mut)]
    pub vault: Account<'info, Vault>,
    pub depositor: Signer<'info>,
}

#[derive(Accounts)]
pub struct Withdraw<'info> {
    #[account(mut)]
    pub vault: Account<'info, Vault>,
    pub authority: Signer<'info>,
}

#[derive(Accounts)]
pub struct CalculateRewards<'info> {
    #[account(mut)]
    pub staking: Account<'info, StakingAccount>,
}

#[account]
pub struct Vault {
    pub authority: Pubkey,
    pub balance: u64,
}

#[account]
pub struct StakingAccount {
    pub owner: Pubkey,
    pub amount: u64,
    pub rate: u64,
    pub start_time: i64,
    pub pending_rewards: u64,
}'',
    secureCode = js ''use anchor_lang::prelude::*;

declare_id!("Secure3333333333333333333333333333333333333");

#[program]
pub mod secure_overflow {
    use super::*;

    // '' @ [0x2705] @ js '' SECURE: Using checked arithmetic
    pub fn deposit(ctx: Context<Deposit>, amount: u64) -> Result<()> {
        let vault = &mut ctx.accounts.vault;
        
        // '' @ [0x2705] @ js '' SECURE: checked_add returns None on overflow
        vault.balance = vault.balance
            .checked_add(amount)
            .ok_or(ErrorCode::ArithmeticOverflow)?;
        
        msg!("Deposited {}. New balance: {}", amount, vault.balance);
        Ok(())
    }

    // '' @ [0x2705] @ js '' SECURE: Using checked subtraction with balance validation
    pub fn withdraw(ctx: Context<Withdraw>, amount: u64) -> Result<()> {
        let vault = &mut ctx.accounts.vault;
        
        // '' @ [0x2705] @ js '' SECURE: Explicit balance check first
        require!(
            vault.balance >= amount,
            ErrorCode::InsufficientBalance
        );
        
        // '' @ [0x2705] @ js '' SECURE: checked_sub for defense in depth
        vault.balance = vault.balance
            .checked_sub(amount)
            .ok_or(ErrorCode::ArithmeticUnderflow)?;
        
        msg!("Withdrew {}. New balance: {}", amount, vault.balance);
        Ok(())
    }

    // '' @ [0x2705] @ js '' SECURE: Safe reward calculation with overflow protection
    pub fn calculate_rewards(ctx: Context<CalculateRewards>) -> Result<()> {
        let staking = &mut ctx.accounts.staking;
        let clock = Clock::get()?;
        
        // '' @ [0x2705] @ js '' SECURE: Validate time hasn't gone backwards
        require!(
            clock.unix_timestamp >= staking.start_time,
            ErrorCode::InvalidTimestamp
        );
        
        let time_staked = (clock.unix_timestamp - staking.start_time) as u64;
        
        // '' @ [0x2705] @ js '' SECURE: Chain checked operations
        // Using u128 intermediate to prevent overflow, then check bounds
        let rewards_u128 = (staking.amount as u128)
            .checked_mul(staking.rate as u128)
            .ok_or(ErrorCode::ArithmeticOverflow)?
            .checked_mul(time_staked as u128)
            .ok_or(ErrorCode::ArithmeticOverflow)?
            .checked_div(1_000_000) // Scale factor
            .ok_or(ErrorCode::ArithmeticOverflow)?;
        
        // '' @ [0x2705] @ js '' SECURE: Verify result fits in u64
        require!(
            rewards_u128 <= u64::MAX as u128,
            ErrorCode::RewardsTooLarge
        );
        
        staking.pending_rewards = rewards_u128 as u64;
        msg!("Calculated rewards: {}", staking.pending_rewards);
        Ok(())
    }
}

#[derive(Accounts)]
pub struct Deposit<'info> {
    #[account(mut)]
    pub vault: Account<'info, Vault>,
    pub depositor: Signer<'info>,
}

#[derive(Accounts)]
pub struct Withdraw<'info> {
    #[account(
        mut,
        has_one = authority @ ErrorCode::UnauthorizedWithdraw
    )]
    pub vault: Account<'info, Vault>,
    pub authority: Signer<'info>,
}

#[derive(Accounts)]
pub struct CalculateRewards<'info> {
    #[account(mut)]
    pub staking: Account<'info, StakingAccount>,
}

#[account]
pub struct Vault {
    pub authority: Pubkey,
    pub balance: u64,
}

#[account]
pub struct StakingAccount {
    pub owner: Pubkey,
    pub amount: u64,
    pub rate: u64,
    pub start_time: i64,
    pub pending_rewards: u64,
}

#[error_code]
pub enum ErrorCode {
    #[msg("Arithmetic overflow occurred")]
    ArithmeticOverflow,
    #[msg("Arithmetic underflow occurred")]
    ArithmeticUnderflow,
    #[msg("Insufficient balance for withdrawal")]
    InsufficientBalance,
    #[msg("Unauthorized withdrawal attempt")]
    UnauthorizedWithdraw,
    #[msg("Invalid timestamp detected")]
    InvalidTimestamp,
    #[msg("Calculated rewards exceed maximum")]
    RewardsTooLarge,
}'',
    vulnerableExplanation = js ''
**What's Wrong:**
- Uses standard arithmetic operators (+, -, *)
- In release mode, these wrap on overflow/underflow
- No validation of operation results
- No bounds checking before operations

**Attack Vectors:**

1. **Underflow Attack:**
   - Vault has 100 tokens
   - Attacker withdraws 200 tokens
   - Balance becomes u64::MAX - 99 '' @ [0x2248] @ js '' 18 quintillion!
   
2. **Overflow Attack:**
   - Stake large amount with high rate
   - Wait for time_staked to be large
   - Multiplication overflows to small number
   - Or wraps to give attacker huge rewards
    '',
    secureExplanation = js ''
**Security Measures:**

1. **checked_add/checked_sub/checked_mul**: Return None on overflow
2. **Explicit bounds checking**: Validate before operations
3. **u128 intermediate**: Use larger type for calculations
4. **Result validation**: Ensure final value fits in target type

**Best Practices:**
- Always use checked arithmetic in financial code
- Validate inputs before operations
- Use larger intermediate types for complex calculations
- Add explicit bounds checks as defense in depth
    '',
    attackScenario = js ''
**Real-World Attack Scenario:**

1. A staking protocol calculates rewards: amount * rate * time
2. Attacker stakes maximum u64 amount
3. Waits for time to accumulate
4. Calls calculate_rewards:
   - u64::MAX * rate * time overflows
   - Result wraps to a small or zero value
   - OR wraps to give attacker massive rewards
5. Attacker claims inflated rewards or griefs other users

**Historical Impact:** Integer overflow bugs have caused losses exceeding $100M across DeFi.
    '',
    prevention = [
      js ''Always use checked_add, checked_sub, checked_mul, checked_div'',
      js ''Use saturating_* methods when capping at max/min is acceptable'',
      js ''Validate inputs before performing arithmetic'',
      js ''Use larger intermediate types (u128) for complex calculations'',
      js ''Add explicit bounds checks even with checked arithmetic'',
      js ''Consider using libraries like uint for arbitrary precision''
    ],
    references = [
      (js ''Rust Checked Arithmetic'', js ''https://doc.rust-lang.org/std/primitive.u64.html#method.checked_add''),
      (js ''Solana Security Best Practices'', js ''https://solana.com/docs/programs/security'')
    ]
  \<rparr>\<close>

definition pattern_pda_seed_collision :: SecurityPattern where
  \<open>pattern_pda_seed_collision = \<lparr>
    id' = js ''pda-seed-collision'',
    title = js ''PDA Seed Collision'',
    description = js ''Using predictable or insufficient seeds for PDAs, allowing attackers to access or overwrite accounts.'',
    severity = high,
    category = js ''PDA Security'',
    explanation = js ''
Program Derived Addresses (PDAs) are deterministically generated from seeds and a program ID. If the seeds are predictable or don't include sufficient unique identifiers, attackers can:

1. **Predict PDAs**: Calculate addresses before they're created
2. **Collide PDAs**: Create accounts that map to the same address
3. **Access Control Bypass**: Access accounts meant for other users

Common mistakes include:
- Using only user-controlled data as seeds
- Not including unique identifiers (user pubkey, nonce)
- Using sequential or predictable values
- Not validating PDA derivation in instructions
    '',
    vulnerableCode = js ''use anchor_lang::prelude::*;

declare_id!("Vuln444444444444444444444444444444444444444");

#[program]
pub mod vulnerable_pda {
    use super::*;

    // '' @ [0x274C] @ js '' VULNERABLE: Predictable seeds without user binding
    pub fn create_vault(
        ctx: Context<CreateVault>,
        vault_name: String,
    ) -> Result<()> {
        let vault = &mut ctx.accounts.vault;
        vault.authority = ctx.accounts.authority.key();
        vault.balance = 0;
        vault.name = vault_name;
        
        msg!("Created vault: {}", vault.name);
        Ok(())
    }

    // '' @ [0x274C] @ js '' VULNERABLE: No PDA verification in withdraw
    pub fn withdraw(ctx: Context<Withdraw>, amount: u64) -> Result<()> {
        let vault = &mut ctx.accounts.vault;
        
        // Only checks authority matches, but PDA could be wrong!
        require_keys_eq!(
            vault.authority,
            ctx.accounts.authority.key(),
            ErrorCode::Unauthorized
        );
        
        vault.balance = vault.balance.checked_sub(amount)
            .ok_or(ErrorCode::InsufficientFunds)?;
        
        Ok(())
    }
}

#[derive(Accounts)]
#[instruction(vault_name: String)]
pub struct CreateVault<'info> {
    // '' @ [0x274C] @ js '' VULNERABLE: Seeds only use vault_name
    // Any user can create a vault with the same name
    // First user's vault gets overwritten!
    #[account(
        init,
        payer = authority,
        space = 8 + Vault::INIT_SPACE,
        seeds = [b"vault", vault_name.as_bytes()],
        bump
    )]
    pub vault: Account<'info, Vault>,
    
    #[account(mut)]
    pub authority: Signer<'info>,
    
    pub system_program: Program<'info, System>,
}

#[derive(Accounts)]
pub struct Withdraw<'info> {
    // '' @ [0x274C] @ js '' VULNERABLE: No seeds constraint to verify PDA
    #[account(mut)]
    pub vault: Account<'info, Vault>,
    
    pub authority: Signer<'info>,
}

#[account]
#[derive(InitSpace)]
pub struct Vault {
    pub authority: Pubkey,
    pub balance: u64,
    #[max_len(32)]
    pub name: String,
}

#[error_code]
pub enum ErrorCode {
    #[msg("Unauthorized access")]
    Unauthorized,
    #[msg("Insufficient funds")]
    InsufficientFunds,
}'',
    secureCode = js ''use anchor_lang::prelude::*;

declare_id!("Secure4444444444444444444444444444444444444");

#[program]
pub mod secure_pda {
    use super::*;

    // '' @ [0x2705] @ js '' SECURE: User-bound PDA with proper seeds
    pub fn create_vault(
        ctx: Context<CreateVault>,
        vault_name: String,
    ) -> Result<()> {
        let vault = &mut ctx.accounts.vault;
        vault.authority = ctx.accounts.authority.key();
        vault.balance = 0;
        vault.name = vault_name;
        vault.bump = ctx.bumps.vault;
        
        msg!("Created vault '{}' for user {}", 
            vault.name, 
            vault.authority
        );
        Ok(())
    }

    // '' @ [0x2705] @ js '' SECURE: PDA verification in withdraw
    pub fn withdraw(ctx: Context<Withdraw>, amount: u64) -> Result<()> {
        let vault = &mut ctx.accounts.vault;
        
        vault.balance = vault.balance.checked_sub(amount)
            .ok_or(ErrorCode::InsufficientFunds)?;
        
        msg!("Withdrew {} from vault '{}'", amount, vault.name);
        Ok(())
    }
    
    // '' @ [0x2705] @ js '' SECURE: Using PDA for signing (e.g., token transfers)
    pub fn transfer_from_vault(
        ctx: Context<TransferFromVault>,
        amount: u64,
    ) -> Result<()> {
        let vault = &ctx.accounts.vault;
        let authority_key = ctx.accounts.authority.key();
        
        // '' @ [0x2705] @ js '' SECURE: Reconstruct seeds for PDA signing
        let seeds = &[
            b"vault".as_ref(),
            authority_key.as_ref(),
            vault.name.as_bytes(),
            &[vault.bump],
        ];
        let signer_seeds = &[&seeds[..]];
        
        // Use signer_seeds for CPI calls...
        msg!("Transfer {} from vault PDA", amount);
        
        Ok(())
    }
}

#[derive(Accounts)]
#[instruction(vault_name: String)]
pub struct CreateVault<'info> {
    // '' @ [0x2705] @ js '' SECURE: Seeds include authority pubkey
    // Each user gets their own unique vault PDA
    #[account(
        init,
        payer = authority,
        space = 8 + Vault::INIT_SPACE,
        seeds = [
            b"vault",
            authority.key().as_ref(),
            vault_name.as_bytes()
        ],
        bump
    )]
    pub vault: Account<'info, Vault>,
    
    #[account(mut)]
    pub authority: Signer<'info>,
    
    pub system_program: Program<'info, System>,
}

#[derive(Accounts)]
#[instruction()]
pub struct Withdraw<'info> {
    // '' @ [0x2705] @ js '' SECURE: Full PDA verification with seeds
    #[account(
        mut,
        seeds = [
            b"vault",
            authority.key().as_ref(),
            vault.name.as_bytes()
        ],
        bump = vault.bump,
        has_one = authority @ ErrorCode::Unauthorized
    )]
    pub vault: Account<'info, Vault>,
    
    pub authority: Signer<'info>,
}

#[derive(Accounts)]
pub struct TransferFromVault<'info> {
    #[account(
        seeds = [
            b"vault",
            authority.key().as_ref(),
            vault.name.as_bytes()
        ],
        bump = vault.bump,
        has_one = authority @ ErrorCode::Unauthorized
    )]
    pub vault: Account<'info, Vault>,
    
    pub authority: Signer<'info>,
}

#[account]
#[derive(InitSpace)]
pub struct Vault {
    pub authority: Pubkey,
    pub balance: u64,
    #[max_len(32)]
    pub name: String,
    pub bump: u8,  // '' @ [0x2705] @ js '' Store bump for efficient re-derivation
}

#[error_code]
pub enum ErrorCode {
    #[msg("Unauthorized access to vault")]
    Unauthorized,
    #[msg("Insufficient funds in vault")]
    InsufficientFunds,
}'',
    vulnerableExplanation = js ''
**What's Wrong:**

1. **Insufficient Seeds:**
   - Only uses `vault_name` in seeds
   - Two users creating "savings" vault collide
   - Second user overwrites first user's vault

2. **Missing PDA Verification:**
   - Withdraw doesn't verify PDA derivation
   - Attacker can pass any account with matching authority
   - Could access accounts not meant for them

**Attack Vectors:**
- Create vault with common name, wait for victim to deposit
- Pass manipulated account data to withdraw
    '',
    secureExplanation = js ''
**Security Measures:**

1. **User-Bound Seeds:**
   - Include `authority.key()` in seeds
   - Each user gets unique PDA even with same name
   - Impossible to collide with other users

2. **Full PDA Verification:**
   - Seeds constraint in withdraw verifies derivation
   - `has_one` ensures authority matches
   - Stored bump enables efficient re-derivation

3. **Bump Storage:**
   - Store bump in account for CPI signing
   - Avoids expensive re-computation
    '',
    attackScenario = js ''
**Real-World Attack Scenario:**

1. Protocol uses vault_name only for PDA seeds
2. Attacker creates vault named "main" (common name)
3. Victim creates their vault also named "main"
4. Victim's transaction fails OR overwrites attacker's vault
5. If overwrite: attacker's authority is replaced
6. If fail: victim can't create vault, DoS attack

**Alternative Attack:**
1. Attacker predicts common vault names
2. Pre-creates vaults for all common names
3. Sets themselves as authority
4. Waits for victims to deposit to "their" vaults
5. Drains all deposits
    '',
    prevention = [
      js ''Always include user pubkey in PDA seeds'',
      js ''Use unique identifiers (timestamps, counters) when needed'',
      js ''Verify PDA derivation in all instructions that access PDAs'',
      js ''Store and validate bump seeds'',
      js ''Use has_one constraint for authority checks'',
      js ''Consider using canonical bump (first valid bump)''
    ],
    references = [
      (js ''Anchor PDA Documentation'', js ''https://www.anchor-lang.com/docs/pdas''),
      (js ''Solana PDA Deep Dive'', js ''https://solana.com/docs/core/pda'')
    ]
  \<rparr>\<close>

definition pattern_unsafe_cpi :: SecurityPattern where
  \<open>pattern_unsafe_cpi = \<lparr>
    id' = js ''unsafe-cpi'',
    title = js ''Unsafe Cross-Program Invocation (CPI)'',
    description = js ''Improper CPI handling leading to privilege escalation, reentrancy, or unauthorized program calls.'',
    severity = critical,
    category = js ''CPI Security'',
    explanation = js ''
Cross-Program Invocation (CPI) allows programs to call other programs. This powerful feature introduces several security risks:

1. **Privilege Escalation**: Passing signer seeds incorrectly
2. **Reentrancy**: Called program calls back into your program
3. **Fake Program**: Calling a malicious program instead of intended one
4. **Account Confusion**: Passing wrong accounts to CPI

CPI security requires:
- Verifying the program being called
- Careful handling of signer privileges
- State management before/after CPI
- Understanding the called program's behavior
    '',
    vulnerableCode = js ''use anchor_lang::prelude::*;
use anchor_spl::token::{self, Token, TokenAccount, Transfer};

declare_id!("Vuln555555555555555555555555555555555555555");

#[program]
pub mod vulnerable_cpi {
    use super::*;

    // '' @ [0x274C] @ js '' VULNERABLE: No program ID verification for CPI
    pub fn swap_tokens(
        ctx: Context<SwapTokens>,
        amount: u64,
    ) -> Result<()> {
        // '' @ [0x274C] @ js '' VULNERABLE: Calling unverified program!
        // Attacker can pass a malicious program that steals funds
        let cpi_accounts = Transfer {
            from: ctx.accounts.user_token_a.to_account_info(),
            to: ctx.accounts.pool_token_a.to_account_info(),
            authority: ctx.accounts.user.to_account_info(),
        };
        
        // '' @ [0x274C] @ js '' VULNERABLE: token_program is not verified!
        let cpi_ctx = CpiContext::new(
            ctx.accounts.token_program.to_account_info(),
            cpi_accounts,
        );
        
        token::transfer(cpi_ctx, amount)?;
        
        // State update AFTER CPI - vulnerable to reentrancy
        let pool = &mut ctx.accounts.pool;
        pool.total_deposits += amount;
        
        Ok(())
    }

    // '' @ [0x274C] @ js '' VULNERABLE: Reentrancy through callback
    pub fn deposit_with_callback(
        ctx: Context<DepositWithCallback>,
        amount: u64,
    ) -> Result<()> {
        let vault = &mut ctx.accounts.vault;
        
        // '' @ [0x274C] @ js '' VULNERABLE: State updated AFTER external call
        // Malicious callback can re-enter and drain funds
        
        // External call first (BAD!)
        let cpi_accounts = Transfer {
            from: ctx.accounts.user_tokens.to_account_info(),
            to: ctx.accounts.vault_tokens.to_account_info(),
            authority: ctx.accounts.user.to_account_info(),
        };
        let cpi_ctx = CpiContext::new(
            ctx.accounts.token_program.to_account_info(),
            cpi_accounts,
        );
        token::transfer(cpi_ctx, amount)?;
        
        // '' @ [0x274C] @ js '' State update after CPI - REENTRANCY RISK!
        vault.balance += amount;
        vault.last_deposit = Clock::get()?.unix_timestamp;
        
        Ok(())
    }
}

#[derive(Accounts)]
pub struct SwapTokens<'info> {
    #[account(mut)]
    pub user: Signer<'info>,
    
    #[account(mut)]
    pub user_token_a: Account<'info, TokenAccount>,
    
    #[account(mut)]
    pub pool_token_a: Account<'info, TokenAccount>,
    
    #[account(mut)]
    pub pool: Account<'info, Pool>,
    
    // '' @ [0x274C] @ js '' VULNERABLE: No verification this is the real token program!
    /// CHECK: Should verify this is Token program
    pub token_program: AccountInfo<'info>,
}

#[derive(Accounts)]
pub struct DepositWithCallback<'info> {
    #[account(mut)]
    pub user: Signer<'info>,
    
    #[account(mut)]
    pub user_tokens: Account<'info, TokenAccount>,
    
    #[account(mut)]
    pub vault_tokens: Account<'info, TokenAccount>,
    
    #[account(mut)]
    pub vault: Account<'info, Vault>,
    
    pub token_program: Program<'info, Token>,
}

#[account]
pub struct Pool {
    pub authority: Pubkey,
    pub total_deposits: u64,
}

#[account]
pub struct Vault {
    pub authority: Pubkey,
    pub balance: u64,
    pub last_deposit: i64,
}'',
    secureCode = js ''use anchor_lang::prelude::*;
use anchor_spl::token::{self, Token, TokenAccount, Transfer};

declare_id!("Secure5555555555555555555555555555555555555");

#[program]
pub mod secure_cpi {
    use super::*;

    // '' @ [0x2705] @ js '' SECURE: Verified program ID for CPI
    pub fn swap_tokens(
        ctx: Context<SwapTokens>,
        amount: u64,
    ) -> Result<()> {
        // '' @ [0x2705] @ js '' SECURE: Update state BEFORE CPI (checks-effects-interactions)
        let pool = &mut ctx.accounts.pool;
        
        // Validate amount
        require!(amount > 0, ErrorCode::InvalidAmount);
        require!(
            ctx.accounts.user_token_a.amount >= amount,
            ErrorCode::InsufficientBalance
        );
        
        // Update state first
        pool.total_deposits = pool.total_deposits
            .checked_add(amount)
            .ok_or(ErrorCode::Overflow)?;
        
        // '' @ [0x2705] @ js '' SECURE: CPI with verified token program
        let cpi_accounts = Transfer {
            from: ctx.accounts.user_token_a.to_account_info(),
            to: ctx.accounts.pool_token_a.to_account_info(),
            authority: ctx.accounts.user.to_account_info(),
        };
        
        // Program<'info, Token> ensures this is the real token program
        let cpi_ctx = CpiContext::new(
            ctx.accounts.token_program.to_account_info(),
            cpi_accounts,
        );
        
        token::transfer(cpi_ctx, amount)?;
        
        emit!(SwapEvent {
            user: ctx.accounts.user.key(),
            amount,
            timestamp: Clock::get()?.unix_timestamp,
        });
        
        Ok(())
    }

    // '' @ [0x2705] @ js '' SECURE: Reentrancy-safe deposit
    pub fn deposit_with_callback(
        ctx: Context<DepositWithCallback>,
        amount: u64,
    ) -> Result<()> {
        let vault = &mut ctx.accounts.vault;
        
        // '' @ [0x2705] @ js '' SECURE: Validate inputs
        require!(amount > 0, ErrorCode::InvalidAmount);
        require!(
            ctx.accounts.user_tokens.amount >= amount,
            ErrorCode::InsufficientBalance
        );
        
        // '' @ [0x2705] @ js '' SECURE: Update state BEFORE external call
        // This prevents reentrancy attacks
        vault.balance = vault.balance
            .checked_add(amount)
            .ok_or(ErrorCode::Overflow)?;
        vault.last_deposit = Clock::get()?.unix_timestamp;
        
        // '' @ [0x2705] @ js '' SECURE: Set reentrancy guard (optional extra protection)
        require!(!vault.locked, ErrorCode::ReentrancyDetected);
        vault.locked = true;
        
        // External call AFTER state update
        let cpi_accounts = Transfer {
            from: ctx.accounts.user_tokens.to_account_info(),
            to: ctx.accounts.vault_tokens.to_account_info(),
            authority: ctx.accounts.user.to_account_info(),
        };
        let cpi_ctx = CpiContext::new(
            ctx.accounts.token_program.to_account_info(),
            cpi_accounts,
        );
        token::transfer(cpi_ctx, amount)?;
        
        // '' @ [0x2705] @ js '' Release reentrancy guard
        let vault = &mut ctx.accounts.vault;
        vault.locked = false;
        
        Ok(())
    }
    
    // '' @ [0x2705] @ js '' SECURE: CPI with PDA signer
    pub fn transfer_from_pool(
        ctx: Context<TransferFromPool>,
        amount: u64,
    ) -> Result<()> {
        let pool = &ctx.accounts.pool;
        
        // '' @ [0x2705] @ js '' SECURE: Construct signer seeds carefully
        let pool_seed = pool.seed.as_bytes();
        let bump = pool.bump;
        let seeds = &[
            b"pool".as_ref(),
            pool_seed,
            &[bump],
        ];
        let signer_seeds = &[&seeds[..]];
        
        let cpi_accounts = Transfer {
            from: ctx.accounts.pool_tokens.to_account_info(),
            to: ctx.accounts.recipient_tokens.to_account_info(),
            authority: ctx.accounts.pool.to_account_info(),
        };
        
        // '' @ [0x2705] @ js '' SECURE: CPI with signer seeds
        let cpi_ctx = CpiContext::new_with_signer(
            ctx.accounts.token_program.to_account_info(),
            cpi_accounts,
            signer_seeds,
        );
        
        token::transfer(cpi_ctx, amount)?;
        
        Ok(())
    }
}

#[derive(Accounts)]
pub struct SwapTokens<'info> {
    #[account(mut)]
    pub user: Signer<'info>,
    
    #[account(
        mut,
        constraint = user_token_a.owner == user.key() @ ErrorCode::InvalidOwner
    )]
    pub user_token_a: Account<'info, TokenAccount>,
    
    #[account(
        mut,
        constraint = pool_token_a.owner == pool.key() @ ErrorCode::InvalidOwner
    )]
    pub pool_token_a: Account<'info, TokenAccount>,
    
    #[account(mut)]
    pub pool: Account<'info, Pool>,
    
    // '' @ [0x2705] @ js '' SECURE: Program<'info, Token> verifies program ID
    pub token_program: Program<'info, Token>,
}

#[derive(Accounts)]
pub struct DepositWithCallback<'info> {
    #[account(mut)]
    pub user: Signer<'info>,
    
    #[account(
        mut,
        constraint = user_tokens.owner == user.key() @ ErrorCode::InvalidOwner
    )]
    pub user_tokens: Account<'info, TokenAccount>,
    
    #[account(mut)]
    pub vault_tokens: Account<'info, TokenAccount>,
    
    #[account(
        mut,
        has_one = authority @ ErrorCode::Unauthorized
    )]
    pub vault: Account<'info, Vault>,
    
    pub authority: Signer<'info>,
    
    pub token_program: Program<'info, Token>,
}

#[derive(Accounts)]
pub struct TransferFromPool<'info> {
    #[account(
        seeds = [b"pool", pool.seed.as_bytes()],
        bump = pool.bump,
        has_one = authority @ ErrorCode::Unauthorized
    )]
    pub pool: Account<'info, Pool>,
    
    #[account(mut)]
    pub pool_tokens: Account<'info, TokenAccount>,
    
    #[account(mut)]
    pub recipient_tokens: Account<'info, TokenAccount>,
    
    pub authority: Signer<'info>,
    
    pub token_program: Program<'info, Token>,
}

#[account]
pub struct Pool {
    pub authority: Pubkey,
    pub total_deposits: u64,
    pub seed: String,
    pub bump: u8,
}

#[account]
pub struct Vault {
    pub authority: Pubkey,
    pub balance: u64,
    pub last_deposit: i64,
    pub locked: bool,  // Reentrancy guard
}

#[event]
pub struct SwapEvent {
    pub user: Pubkey,
    pub amount: u64,
    pub timestamp: i64,
}

#[error_code]
pub enum ErrorCode {
    #[msg("Invalid amount")]
    InvalidAmount,
    #[msg("Insufficient balance")]
    InsufficientBalance,
    #[msg("Arithmetic overflow")]
    Overflow,
    #[msg("Invalid token account owner")]
    InvalidOwner,
    #[msg("Unauthorized")]
    Unauthorized,
    #[msg("Reentrancy detected")]
    ReentrancyDetected,
}'',
    vulnerableExplanation = js ''
**What's Wrong:**

1. **Unverified Program:**
   - `token_program` is raw AccountInfo
   - Attacker can pass malicious program
   - Fake program can steal tokens

2. **Reentrancy Risk:**
   - State updated AFTER CPI
   - Malicious token can callback
   - Re-enter and exploit stale state

3. **Missing Validations:**
   - No ownership checks on token accounts
   - No amount validation
   - No overflow protection
    '',
    secureExplanation = js ''
**Security Measures:**

1. **Program Verification:**
   - `Program<'info, Token>` verifies program ID
   - Cannot pass fake token program

2. **Checks-Effects-Interactions:**
   - Update state BEFORE CPI
   - Reentrancy can't exploit stale state

3. **Reentrancy Guard:**
   - Lock flag prevents re-entry
   - Extra protection layer

4. **Comprehensive Validation:**
   - Token account ownership
   - Amount bounds
   - Overflow protection
    '',
    attackScenario = js ''
**Reentrancy Attack Scenario:**

1. Attacker deploys malicious token contract
2. Token's transfer function calls back to deposit
3. Attack flow:
   - Call deposit(100)
   - CPI to malicious token
   - Token calls deposit(100) again
   - State not yet updated, passes checks
   - Repeat until drained
4. Final state shows deposits but tokens stolen

**Fake Program Attack:**

1. Attacker deploys fake "token program"
2. Fake program's transfer does nothing
3. Attacker calls swap with fake program
4. Pool state updated (thinks it received tokens)
5. Attacker gets output tokens for free
    '',
    prevention = [
      js ''Always use Program<'info, T> for CPI targets'',
      js ''Follow checks-effects-interactions pattern'',
      js ''Update state BEFORE external calls'',
      js ''Consider reentrancy guards for complex flows'',
      js ''Validate all account relationships'',
      js ''Use events for off-chain tracking'',
      js ''Test with malicious program simulations''
    ],
    references = [
      (js ''Anchor CPI Documentation'', js ''https://www.anchor-lang.com/docs/cross-program-invocations''),
      (js ''Solana CPI Deep Dive'', js ''https://solana.com/docs/core/cpi'')
    ]
  \<rparr>\<close>

definition pattern_account_data_matching :: SecurityPattern where
  \<open>pattern_account_data_matching = \<lparr>
    id' = js ''account-data-matching'',
    title = js ''Account Data Matching Vulnerabilities'',
    description = js ''Failing to verify relationships between accounts, allowing attackers to substitute malicious accounts.'',
    severity = high,
    category = js ''Account Validation'',
    explanation = js ''
Solana programs often work with multiple related accounts (e.g., a user account and their token account, or a pool and its vaults). Failing to verify these relationships allows attackers to:

1. **Substitute Accounts**: Pass their own account instead of the expected one
2. **Steal Funds**: Redirect transfers to attacker-controlled accounts
3. **Bypass Access Control**: Use accounts from different contexts

Common patterns that need validation:
- Token account ownership
- PDA derivation relationships
- Authority/owner fields matching signers
- Mint relationships for token accounts
    '',
    vulnerableCode = js ''use anchor_lang::prelude::*;
use anchor_spl::token::{self, Token, TokenAccount, Mint, Transfer};

declare_id!("Vuln666666666666666666666666666666666666666");

#[program]
pub mod vulnerable_matching {
    use super::*;

    // '' @ [0x274C] @ js '' VULNERABLE: No verification that token accounts belong to user
    pub fn transfer_tokens(
        ctx: Context<TransferTokens>,
        amount: u64,
    ) -> Result<()> {
        // '' @ [0x274C] @ js '' VULNERABLE: from_account might not belong to user!
        // Attacker can pass victim's token account as from_account
        let cpi_accounts = Transfer {
            from: ctx.accounts.from_account.to_account_info(),
            to: ctx.accounts.to_account.to_account_info(),
            authority: ctx.accounts.authority.to_account_info(),
        };
        
        let cpi_ctx = CpiContext::new(
            ctx.accounts.token_program.to_account_info(),
            cpi_accounts,
        );
        
        token::transfer(cpi_ctx, amount)?;
        
        Ok(())
    }

    // '' @ [0x274C] @ js '' VULNERABLE: No mint verification
    pub fn deposit_to_pool(
        ctx: Context<DepositToPool>,
        amount: u64,
    ) -> Result<()> {
        let pool = &mut ctx.accounts.pool;
        
        // '' @ [0x274C] @ js '' VULNERABLE: user_tokens might be for wrong mint!
        // Attacker deposits worthless tokens, gets valuable pool shares
        pool.total_deposits += amount;
        
        // Transfer happens but mint isn't verified
        let cpi_accounts = Transfer {
            from: ctx.accounts.user_tokens.to_account_info(),
            to: ctx.accounts.pool_tokens.to_account_info(),
            authority: ctx.accounts.user.to_account_info(),
        };
        
        let cpi_ctx = CpiContext::new(
            ctx.accounts.token_program.to_account_info(),
            cpi_accounts,
        );
        
        token::transfer(cpi_ctx, amount)?;
        
        Ok(())
    }

    // '' @ [0x274C] @ js '' VULNERABLE: No relationship verification between accounts
    pub fn claim_rewards(
        ctx: Context<ClaimRewards>,
    ) -> Result<()> {
        let staking = &ctx.accounts.staking_account;
        let rewards = staking.pending_rewards;
        
        // '' @ [0x274C] @ js '' VULNERABLE: reward_vault might not be the pool's vault!
        // Attacker can pass any vault they control
        
        msg!("Claiming {} rewards", rewards);
        
        // Would transfer from wrong vault...
        
        Ok(())
    }
}

#[derive(Accounts)]
pub struct TransferTokens<'info> {
    // '' @ [0x274C] @ js '' VULNERABLE: No owner constraint
    #[account(mut)]
    pub from_account: Account<'info, TokenAccount>,
    
    #[account(mut)]
    pub to_account: Account<'info, TokenAccount>,
    
    pub authority: Signer<'info>,
    
    pub token_program: Program<'info, Token>,
}

#[derive(Accounts)]
pub struct DepositToPool<'info> {
    #[account(mut)]
    pub user: Signer<'info>,
    
    // '' @ [0x274C] @ js '' VULNERABLE: No mint constraint
    #[account(mut)]
    pub user_tokens: Account<'info, TokenAccount>,
    
    // '' @ [0x274C] @ js '' VULNERABLE: No relationship to pool verified
    #[account(mut)]
    pub pool_tokens: Account<'info, TokenAccount>,
    
    #[account(mut)]
    pub pool: Account<'info, Pool>,
    
    pub token_program: Program<'info, Token>,
}

#[derive(Accounts)]
pub struct ClaimRewards<'info> {
    pub user: Signer<'info>,
    
    #[account(mut)]
    pub staking_account: Account<'info, StakingAccount>,
    
    // '' @ [0x274C] @ js '' VULNERABLE: No verification this is the correct reward vault
    #[account(mut)]
    pub reward_vault: Account<'info, TokenAccount>,
    
    #[account(mut)]
    pub user_reward_account: Account<'info, TokenAccount>,
    
    pub token_program: Program<'info, Token>,
}

#[account]
pub struct Pool {
    pub authority: Pubkey,
    pub total_deposits: u64,
    pub token_mint: Pubkey,
}

#[account]
pub struct StakingAccount {
    pub owner: Pubkey,
    pub pool: Pubkey,
    pub amount: u64,
    pub pending_rewards: u64,
}'',
    secureCode = js ''use anchor_lang::prelude::*;
use anchor_spl::token::{self, Token, TokenAccount, Mint, Transfer};

declare_id!("Secure6666666666666666666666666666666666666");

#[program]
pub mod secure_matching {
    use super::*;

    // '' @ [0x2705] @ js '' SECURE: Full account relationship verification
    pub fn transfer_tokens(
        ctx: Context<TransferTokens>,
        amount: u64,
    ) -> Result<()> {
        // All validations handled by constraints
        // from_account.owner == authority is verified
        
        let cpi_accounts = Transfer {
            from: ctx.accounts.from_account.to_account_info(),
            to: ctx.accounts.to_account.to_account_info(),
            authority: ctx.accounts.authority.to_account_info(),
        };
        
        let cpi_ctx = CpiContext::new(
            ctx.accounts.token_program.to_account_info(),
            cpi_accounts,
        );
        
        token::transfer(cpi_ctx, amount)?;
        
        emit!(TransferEvent {
            from: ctx.accounts.from_account.key(),
            to: ctx.accounts.to_account.key(),
            amount,
            authority: ctx.accounts.authority.key(),
        });
        
        Ok(())
    }

    // '' @ [0x2705] @ js '' SECURE: Mint and relationship verification
    pub fn deposit_to_pool(
        ctx: Context<DepositToPool>,
        amount: u64,
    ) -> Result<()> {
        let pool = &mut ctx.accounts.pool;
        
        // Validate amount
        require!(amount > 0, ErrorCode::InvalidAmount);
        
        // Update state with overflow protection
        pool.total_deposits = pool.total_deposits
            .checked_add(amount)
            .ok_or(ErrorCode::Overflow)?;
        
        // All account relationships verified by constraints
        let cpi_accounts = Transfer {
            from: ctx.accounts.user_tokens.to_account_info(),
            to: ctx.accounts.pool_tokens.to_account_info(),
            authority: ctx.accounts.user.to_account_info(),
        };
        
        let cpi_ctx = CpiContext::new(
            ctx.accounts.token_program.to_account_info(),
            cpi_accounts,
        );
        
        token::transfer(cpi_ctx, amount)?;
        
        Ok(())
    }

    // '' @ [0x2705] @ js '' SECURE: Full relationship chain verification
    pub fn claim_rewards(
        ctx: Context<ClaimRewards>,
    ) -> Result<()> {
        let staking = &mut ctx.accounts.staking_account;
        let pool = &ctx.accounts.pool;
        
        let rewards = staking.pending_rewards;
        require!(rewards > 0, ErrorCode::NoRewardsToClaim);
        
        // Clear pending rewards BEFORE transfer (CEI pattern)
        staking.pending_rewards = 0;
        
        // Construct PDA signer for pool
        let pool_seeds = &[
            b"pool".as_ref(),
            pool.token_mint.as_ref(),
            &[pool.bump],
        ];
        let signer_seeds = &[&pool_seeds[..]];
        
        let cpi_accounts = Transfer {
            from: ctx.accounts.reward_vault.to_account_info(),
            to: ctx.accounts.user_reward_account.to_account_info(),
            authority: ctx.accounts.pool.to_account_info(),
        };
        
        let cpi_ctx = CpiContext::new_with_signer(
            ctx.accounts.token_program.to_account_info(),
            cpi_accounts,
            signer_seeds,
        );
        
        token::transfer(cpi_ctx, rewards)?;
        
        emit!(RewardClaimEvent {
            user: ctx.accounts.user.key(),
            pool: pool.key(),
            amount: rewards,
        });
        
        Ok(())
    }
}

#[derive(Accounts)]
pub struct TransferTokens<'info> {
    // '' @ [0x2705] @ js '' SECURE: Verify from_account is owned by authority
    #[account(
        mut,
        constraint = from_account.owner == authority.key() @ ErrorCode::InvalidOwner,
        constraint = from_account.mint == to_account.mint @ ErrorCode::MintMismatch
    )]
    pub from_account: Account<'info, TokenAccount>,
    
    #[account(mut)]
    pub to_account: Account<'info, TokenAccount>,
    
    pub authority: Signer<'info>,
    
    pub token_program: Program<'info, Token>,
}

#[derive(Accounts)]
pub struct DepositToPool<'info> {
    #[account(mut)]
    pub user: Signer<'info>,
    
    // '' @ [0x2705] @ js '' SECURE: Verify mint matches pool's expected mint
    #[account(
        mut,
        constraint = user_tokens.owner == user.key() @ ErrorCode::InvalidOwner,
        constraint = user_tokens.mint == pool.token_mint @ ErrorCode::MintMismatch
    )]
    pub user_tokens: Account<'info, TokenAccount>,
    
    // '' @ [0x2705] @ js '' SECURE: Verify pool_tokens belongs to pool and has correct mint
    #[account(
        mut,
        constraint = pool_tokens.owner == pool.key() @ ErrorCode::InvalidOwner,
        constraint = pool_tokens.mint == pool.token_mint @ ErrorCode::MintMismatch
    )]
    pub pool_tokens: Account<'info, TokenAccount>,
    
    // '' @ [0x2705] @ js '' SECURE: Pool PDA verification
    #[account(
        mut,
        seeds = [b"pool", pool.token_mint.as_ref()],
        bump = pool.bump
    )]
    pub pool: Account<'info, Pool>,
    
    pub token_program: Program<'info, Token>,
}

#[derive(Accounts)]
pub struct ClaimRewards<'info> {
    pub user: Signer<'info>,
    
    // '' @ [0x2705] @ js '' SECURE: Verify staking account belongs to user and pool
    #[account(
        mut,
        has_one = owner @ ErrorCode::InvalidOwner,
        constraint = staking_account.pool == pool.key() @ ErrorCode::PoolMismatch
    )]
    pub staking_account: Account<'info, StakingAccount>,
    
    // '' @ [0x2705] @ js '' SECURE: Verify pool relationship
    #[account(
        seeds = [b"pool", pool.token_mint.as_ref()],
        bump = pool.bump,
        has_one = reward_vault @ ErrorCode::InvalidRewardVault
    )]
    pub pool: Account<'info, Pool>,
    
    // '' @ [0x2705] @ js '' SECURE: Verified through has_one on pool
    #[account(mut)]
    pub reward_vault: Account<'info, TokenAccount>,
    
    // '' @ [0x2705] @ js '' SECURE: Verify user owns the reward account
    #[account(
        mut,
        constraint = user_reward_account.owner == user.key() @ ErrorCode::InvalidOwner,
        constraint = user_reward_account.mint == pool.reward_mint @ ErrorCode::MintMismatch
    )]
    pub user_reward_account: Account<'info, TokenAccount>,
    
    /// CHECK: Verified as staking_account.owner
    #[account(constraint = owner.key() == user.key() @ ErrorCode::InvalidOwner)]
    pub owner: AccountInfo<'info>,
    
    pub token_program: Program<'info, Token>,
}

#[account]
pub struct Pool {
    pub authority: Pubkey,
    pub total_deposits: u64,
    pub token_mint: Pubkey,
    pub reward_mint: Pubkey,
    pub reward_vault: Pubkey,
    pub bump: u8,
}

#[account]
pub struct StakingAccount {
    pub owner: Pubkey,
    pub pool: Pubkey,
    pub amount: u64,
    pub pending_rewards: u64,
}

#[event]
pub struct TransferEvent {
    pub from: Pubkey,
    pub to: Pubkey,
    pub amount: u64,
    pub authority: Pubkey,
}

#[event]
pub struct RewardClaimEvent {
    pub user: Pubkey,
    pub pool: Pubkey,
    pub amount: u64,
}

#[error_code]
pub enum ErrorCode {
    #[msg("Invalid account owner")]
    InvalidOwner,
    #[msg("Token mint mismatch")]
    MintMismatch,
    #[msg("Pool mismatch")]
    PoolMismatch,
    #[msg("Invalid reward vault")]
    InvalidRewardVault,
    #[msg("Invalid amount")]
    InvalidAmount,
    #[msg("Arithmetic overflow")]
    Overflow,
    #[msg("No rewards to claim")]
    NoRewardsToClaim,
}'',
    vulnerableExplanation = js ''
**What's Wrong:**

1. **No Owner Verification:**
   - Token accounts not verified to belong to signer
   - Attacker can pass victim's accounts

2. **No Mint Verification:**
   - Token mints not checked
   - Attacker deposits worthless tokens

3. **No Relationship Verification:**
   - Pool and vault relationship not verified
   - Attacker can redirect rewards

**Attack Vectors:**
- Pass victim's token account as source
- Deposit fake tokens, get real pool shares
- Claim rewards from wrong vault
    '',
    secureExplanation = js ''
**Security Measures:**

1. **Owner Constraints:**
   - `token_account.owner == signer.key()`
   - Ensures accounts belong to transaction signer

2. **Mint Constraints:**
   - `user_tokens.mint == pool.token_mint`
   - Prevents depositing wrong tokens

3. **Relationship Chains:**
   - `has_one` verifies stored references
   - PDA seeds verify derivation
   - Full chain from user '' @ [0x2192] @ js '' staking '' @ [0x2192] @ js '' pool '' @ [0x2192] @ js '' vault

4. **Defense in Depth:**
   - Multiple validation layers
   - Events for audit trail
    '',
    attackScenario = js ''
**Account Substitution Attack:**

1. Pool accepts USDC deposits
2. Attacker creates worthless "FAKE" token
3. Attacker:
   - Creates FAKE token account
   - Calls deposit with FAKE tokens
   - No mint verification, deposit succeeds
   - Receives pool shares worth real USDC
4. Attacker redeems shares for real USDC
5. Pool is drained of real value

**Reward Theft Attack:**

1. Attacker finds pool with large reward vault
2. Creates fake staking account pointing to pool
3. Sets pending_rewards to maximum
4. Calls claim_rewards with:
   - Fake staking account
   - Real pool's reward vault
5. Drains entire reward vault
    '',
    prevention = [
      js ''Always verify token account ownership matches signer'',
      js ''Verify mint relationships for all token operations'',
      js ''Use has_one for stored account references'',
      js ''Verify full relationship chains (user '' @ [0x2192] @ js '' account '' @ [0x2192] @ js '' pool)'',
      js ''Use PDAs to enforce account derivation'',
      js ''Add events for monitoring and auditing'',
      js ''Test with account substitution scenarios''
    ],
    references = [
      (js ''Anchor Constraints'', js ''https://www.anchor-lang.com/docs/account-constraints''),
      (js ''SPL Token Security'', js ''https://spl.solana.com/token'')
    ]
  \<rparr>\<close>

definition securityPatterns :: "SecurityPattern list" where
  "securityPatterns = [
    pattern_missing_signer_check,
    pattern_missing_owner_check,
    pattern_integer_overflow,
    pattern_pda_seed_collision,
    pattern_unsafe_cpi,
    pattern_account_data_matching
  ]"

section \<open>The lookup service\<close>

text \<open>
  \<open>getPatternById\<close> of \<open>patterns.ts\<close>: \<open>securityPatterns.find(pattern => pattern.id === id)\<close>.
  \<open>None\<close> is JavaScript's \<open>undefined\<close>.
\<close>

definition getPatternById :: "jsstring \<Rightarrow> SecurityPattern option" where
  "getPatternById ident = array_find (\<lambda>pattern. id' pattern = ident) securityPatterns"

section \<open>The pattern card\<close>

text \<open>The object \<open>severityColors\<close> of \<open>PatternCard.tsx\<close>, read at a severity.\<close>

fun severityColors :: "Severity \<Rightarrow> jsstring" where
  "severityColors critical = js ''bg-error/20 text-error border-error/30''"
| "severityColors high = js ''bg-warning/20 text-warning border-warning/30''"
| "severityColors medium = js ''bg-secondary/20 text-secondary border-secondary/30''"

section \<open>The code display widget\<close>

text \<open>
  \<open>CodeBlock\<close> keeps one piece of React state, \<open>copied\<close>. Its surroundings are the clipboard
  sink and the timer queue of the event loop. \<open>Widget\<close> holds all of them: \<open>timers\<close> are the
  due times (in milliseconds) of the pending \<open>setTimeout\<close> callbacks, every one of which is
  \<open>() => setCopied(false)\<close>; \<open>writes\<close> are the payloads handed to
  \<open>navigator.clipboard.writeText\<close>, in call order; \<open>clipboard\<close> is what the sink holds.
\<close>

record Widget =
  copied :: bool
  timers :: "nat list"
  now :: nat
  clipboard :: "jsstring option"
  writes :: "jsstring list"

text \<open>\<open>useState(false)\<close>, no timer pending, nothing written yet.\<close>

definition mount :: Widget where
  "mount = \<lparr>copied = False, timers = [], now = 0, clipboard = None, writes = []\<rparr>"

datatype CopyError = ClipboardRejected

text \<open>
  \<open>handleCopy\<close>. Whether the sink accepts the write is not the widget's to decide: \<open>ok\<close> is
  the outcome of the promise. When it rejects, \<open>await\<close> throws and the rest of the handler
  is skipped; the handler's own promise rejects (\<open>Inl\<close>). The write is taken to resolve in
  the instant of the click.
\<close>

definition handleCopy :: "jsstring \<Rightarrow> bool \<Rightarrow> Widget \<Rightarrow> (CopyError + unit) \<times> Widget" where
  "handleCopy code ok w =
     (let w1 = w\<lparr>writes := writes w @ [code]\<rparr> in
      if ok then
        (let w2 = w1\<lparr>clipboard := Some code\<rparr>;
             w3 = w2\<lparr>copied := True\<rparr>;
             w4 = w3\<lparr>timers := timers w3 @ [now w3 + 2000]\<rparr>
         in (Inr (), w4))
      else (Inl ClipboardRejected, w1))"

text \<open>\<open>onClick={handleCopy}\<close>: the button drops the promise the handler returns.\<close>

definition onClick :: "jsstring \<Rightarrow> bool \<Rightarrow> Widget \<Rightarrow> Widget" where
  "onClick code ok w = snd (handleCopy code ok w)"

text \<open>
  \<open>d\<close> milliseconds pass: every pending timer that is due by then runs its callback
  \<open>setCopied(false)\<close> and leaves the queue; the others stay.
\<close>

definition elapse :: "nat \<Rightarrow> Widget \<Rightarrow> Widget" where
  "elapse d w =
     w\<lparr>copied := (if list_ex (\<lambda>t. t \<le> now w + d) (timers w) then False else copied w),
       timers := filter (\<lambda>t. now w + d < t) (timers w),
       now := now w + d\<rparr>"

datatype Event = Click bool | Elapse nat

fun step :: "jsstring \<Rightarrow> Widget \<Rightarrow> Event \<Rightarrow> Widget" where
  "step code w (Click ok) = onClick code ok w"
| "step code w (Elapse d) = elapse d w"

definition run :: "jsstring \<Rightarrow> Event list \<Rightarrow> Widget \<Rightarrow> Widget" where
  "run code evs w = foldl (step code) w evs"

text \<open>What the widget shows: the text of the copy button, and the \<open>code\<close> prop of \<open>Highlight\<close>.\<close>

definition buttonText :: "Widget \<Rightarrow> jsstring" where
  "buttonText w = (if copied w then js ''Copied!'' else js ''Copy'')"

definition highlightCode :: "jsstring \<Rightarrow> jsstring" where
  "highlightCode code = trim code"

section \<open>The home page\<close>

text \<open>
  The array \<open>stats\<close> of \<open>HomePage\<close>. A value is a number or a string; the field \<open>value\<close> is
  written \<open>value'\<close>. The component reads the imported array \<open>securityPatterns\<close>; here the array
  is an argument, so that a statement can say which figures depend on it.
\<close>

datatype StatValue = StatNumber nat | StatString jsstring

datatype Icon = ShieldIcon | AlertTriangleIcon | CodeIcon | BookOpenIcon

record Stat =
  label :: jsstring
  value' :: StatValue
  icon :: Icon

definition stats :: "SecurityPattern list \<Rightarrow> Stat list" where
  "stats patterns = [
     \<lparr>label = js ''Security Patterns'', value' = StatNumber (length patterns), icon = ShieldIcon\<rparr>,
     \<lparr>label = js ''Vulnerability Types'', value' = StatString (js ''6+''), icon = AlertTriangleIcon\<rparr>,
     \<lparr>label = js ''Code Examples'', value' = StatString (js ''12+''), icon = CodeIcon\<rparr>,
     \<lparr>label = js ''Best Practices'', value' = StatString (js ''30+''), icon = BookOpenIcon\<rparr>]"

definition HomePage_stats :: "Stat list" where
  "HomePage_stats = stats securityPatterns"

section \<open>The pattern detail page\<close>

text \<open>
  \<open>useParams\<close> gives \<open>id\<close> as a string or \<open>undefined\<close> (\<open>None\<close>). \<open>id || ''\<close> is the empty string
  when \<open>id\<close> is \<open>undefined\<close> or empty. In \<open>findIndex(p => p.id === id)\<close> the strict equality
  of a string with \<open>undefined\<close> is false.
\<close>

definition orEmpty :: "jsstring option \<Rightarrow> jsstring" where
  "orEmpty ident = (case ident of None \<Rightarrow> js '''' | Some s \<Rightarrow> if s = [] then js '''' else s)"

definition currentIndex :: "jsstring option \<Rightarrow> int" where
  "currentIndex ident = array_findIndex (\<lambda>p. Some (id' p) = ident) securityPatterns"

definition nextPattern :: "jsstring option \<Rightarrow> SecurityPattern option" where
  "nextPattern ident = array_get securityPatterns (currentIndex ident + 1)"

definition prevPattern :: "jsstring option \<Rightarrow> SecurityPattern option" where
  "prevPattern ident = array_get securityPatterns (currentIndex ident - 1)"

text \<open>
  A navigation link: its target \<open>`/pattern/${p.id}`\<close> and the title it shows. It is rendered
  only when the neighbour is not \<open>undefined\<close>.
\<close>

definition navLink :: "SecurityPattern \<Rightarrow> jsstring \<times> jsstring" where
  "navLink p = (js ''/pattern/'' @ id' p, title p)"

text \<open>
  The attack scenario: \<open>attackScenario.split('\n')\<close>, and for each line
  \<open>line.trim() && <p className={line.startsWith('**') ? 'font-semibold text-text' : ''}>
  {line.replace(/\*\*/g, '')}</p>\<close>. When \<open>line.trim()\<close> is the empty string, \<open>&&\<close> yields
  that empty string, which React renders as nothing.
\<close>

datatype ReactNode = TextNode jsstring | Para jsstring jsstring

definition attackScenarioLine :: "jsstring \<Rightarrow> ReactNode" where
  "attackScenarioLine line =
     (if trim line = [] then TextNode (trim line)
      else Para (if startsWith line (js ''**'') then js ''font-semibold text-text'' else js '''')
             (stripMarkers line))"

definition attackScenarioBlock :: "SecurityPattern \<Rightarrow> ReactNode list" where
  "attackScenarioBlock pattern = map attackScenarioLine (splitOn 0x0A (attackScenario pattern))"

text \<open>
  The page: the "Pattern Not Found" view when the lookup gives \<open>undefined\<close>; otherwise the
  record, its attack scenario and the two navigation links.
\<close>

record Detail =
  shown :: SecurityPattern
  scenario :: "ReactNode list"
  prevLink :: "(jsstring \<times> jsstring) option"
  nextLink :: "(jsstring \<times> jsstring) option"

datatype PageView = PatternNotFound | PatternDetail Detail

definition PatternPage :: "jsstring option \<Rightarrow> PageView" where
  "PatternPage ident =
     (case getPatternById (orEmpty ident) of
        None \<Rightarrow> PatternNotFound
      | Some pattern \<Rightarrow>
          PatternDetail \<lparr>shown = pattern,
            scenario = attackScenarioBlock pattern,
            prevLink = map_option navLink (prevPattern ident),
            nextLink = map_option navLink (nextPattern ident)\<rparr>)"

section \<open>Facts about the JavaScript operations\<close>

lemma js_eq_iff [simp]: "js a = js b \<longleftrightarrow> a = b"
  unfolding js_def by (simp add: inj_of_char)

lemma js_Nil [simp]: "js [] = []"
  by (simp add: js_def)

lemma js_eq_Nil_iff [simp]: "js s = [] \<longleftrightarrow> s = []" "[] = js s \<longleftrightarrow> s = []"
  by (auto simp: js_def)

lemma js_Cons: "js (c # s) = of_char c # js s"
  by (simp add: js_def)

lemma array_find_None_iff: "array_find P xs = None \<longleftrightarrow> (\<forall>x\<in>set xs. \<not> P x)"
  by (induction xs) auto

lemma array_find_first:
  "i < length xs \<Longrightarrow> P (xs ! i) \<Longrightarrow> (\<And>j. j < i \<Longrightarrow> \<not> P (xs ! j)) \<Longrightarrow> array_find P xs = Some (xs ! i)"
proof (induction xs arbitrary: i)
  case Nil
  then show ?case by simp
next
  case (Cons x xs)
  show ?case
  proof (cases i)
    case 0
    with Cons.prems show ?thesis by simp
  next
    case (Suc k)
    have "\<not> P x" using Cons.prems(3) [of 0] Suc by simp
    moreover have "array_find P xs = Some (xs ! k)"
    proof (rule Cons.IH)
      show "k < length xs" using Cons.prems(1) Suc by simp
      show "P (xs ! k)" using Cons.prems(2) Suc by simp
      show "\<not> P (xs ! j)" if "j < k" for j
        using Cons.prems(3) [of "Suc j"] that Suc by simp
    qed
    ultimately show ?thesis using Suc by simp
  qed
qed

lemma array_find_Some_D:
  "array_find P xs = Some r \<Longrightarrow> \<exists>i<length xs. xs ! i = r \<and> P r \<and> (\<forall>j<i. \<not> P (xs ! j))"
proof (induction xs)
  case Nil
  then show ?case by simp
next
  case (Cons x xs)
  show ?case
  proof (cases "P x")
    case True
    with Cons.prems have "x = r" by simp
    with True show ?thesis by (intro exI [of _ 0]) simp
  next
    case False
    with Cons.prems have "array_find P xs = Some r" by simp
    from Cons.IH [OF this] obtain i where i: "i < length xs" "xs ! i = r" "P r" "\<forall>j<i. \<not> P (xs ! j)"
      by blast
    have "\<forall>j<Suc i. \<not> P ((x # xs) ! j)"
      using False i(4) by (auto simp: less_Suc_eq_0_disj)
    with i show ?thesis by (intro exI [of _ "Suc i"]) simp
  qed
qed

lemma array_find_Some_iff:
  "array_find P xs = Some r \<longleftrightarrow> (\<exists>i<length xs. xs ! i = r \<and> P r \<and> (\<forall>j<i. \<not> P (xs ! j)))"
  using array_find_Some_D [of P xs r] array_find_first [of _ xs P] by blast

lemma findIndexFrom_first:
  "i < length xs \<Longrightarrow> P (xs ! i) \<Longrightarrow> (\<And>j. j < i \<Longrightarrow> \<not> P (xs ! j)) \<Longrightarrow> findIndexFrom k P xs = k + int i"
proof (induction xs arbitrary: i k)
  case Nil
  then show ?case by simp
next
  case (Cons x xs)
  show ?case
  proof (cases i)
    case 0
    with Cons.prems show ?thesis by simp
  next
    case (Suc m)
    have "\<not> P x" using Cons.prems(3) [of 0] Suc by simp
    moreover have "findIndexFrom (k + 1) P xs = (k + 1) + int m"
    proof (rule Cons.IH)
      show "m < length xs" using Cons.prems(1) Suc by simp
      show "P (xs ! m)" using Cons.prems(2) Suc by simp
      show "\<not> P (xs ! j)" if "j < m" for j
        using Cons.prems(3) [of "Suc j"] that Suc by simp
    qed
    ultimately show ?thesis using Suc by simp
  qed
qed

lemma findIndexFrom_none: "(\<forall>x\<in>set xs. \<not> P x) \<Longrightarrow> findIndexFrom k P xs = - 1"
  by (induction xs arbitrary: k) auto

lemma distinct_map_nth_neq:
  "distinct (map f xs) \<Longrightarrow> i < length xs \<Longrightarrow> j < i \<Longrightarrow> f (xs ! j) \<noteq> f (xs ! i)"
  using nth_eq_iff_index_eq [of "map f xs" j i] by simp

lemma array_get_prev:
  "i < length xs \<Longrightarrow> array_get xs (int i - 1) = (if i = 0 then None else Some (xs ! (i - 1)))"
  by (auto simp: array_get_def nat_diff_distrib')

lemma array_get_next:
  "array_get xs (int i + 1) = (if i + 1 < length xs then Some (xs ! (i + 1)) else None)"
  by (auto simp: array_get_def nat_add_distrib)

lemma trimStart_decomp: "s = takeWhile isWhiteSpace s @ trimStart s"
  by (simp add: trimStart_def)

lemma trimEnd_decomp: "s = trimEnd s @ rev (takeWhile isWhiteSpace (rev s))"
  unfolding trimEnd_def by (metis rev_append rev_rev_ident takeWhile_dropWhile_id)

lemma trim_decomp:
  "\<exists>pre suf. s = pre @ trim s @ suf \<and> list_all isWhiteSpace pre \<and> list_all isWhiteSpace suf"
proof (intro exI conjI)
  show "s = takeWhile isWhiteSpace s @ trim s @ rev (takeWhile isWhiteSpace (rev (trimStart s)))"
    using trimStart_decomp [of s] trimEnd_decomp [of "trimStart s"] by (simp add: trim_def)
  show "list_all isWhiteSpace (takeWhile isWhiteSpace s)"
    by (simp add: list_all_iff) (meson set_takeWhileD)
  show "list_all isWhiteSpace (rev (takeWhile isWhiteSpace (rev (trimStart s))))"
    by (simp add: list_all_iff) (meson set_takeWhileD)
qed

lemma trim_ends:
  "trim s = [] \<or> (\<not> isWhiteSpace (hd (trim s)) \<and> \<not> isWhiteSpace (last (trim s)))"
proof (cases "trim s = []")
  case True
  then show ?thesis by simp
next
  case False
  let ?t = "trimStart s"
  have ne: "dropWhile isWhiteSpace (rev ?t) \<noteq> []"
    using False by (simp add: trim_def trimEnd_def)
  have "last (trim s) = hd (dropWhile isWhiteSpace (rev ?t))"
    using ne by (simp add: trim_def trimEnd_def last_rev)
  then have l: "\<not> isWhiteSpace (last (trim s))"
    using hd_dropWhile [OF ne] by simp
  have tne: "?t \<noteq> []" using ne by auto
  have "?t = trim s @ rev (takeWhile isWhiteSpace (rev ?t))"
    using trimEnd_decomp [of ?t] by (simp add: trim_def)
  then have "hd ?t = hd (trim s)"
    using False by (metis hd_append2)
  moreover have "\<not> isWhiteSpace (hd ?t)"
    using tne hd_dropWhile [of isWhiteSpace s] by (simp add: trimStart_def)
  ultimately show ?thesis using l by simp
qed

lemma startsWith_marker_iff:
  "startsWith s (js ''**'') \<longleftrightarrow> (\<exists>r. s = 0x2A # 0x2A # r)"
proof -
  have m: "js ''**'' = [0x2A, 0x2A]" by (simp add: js_def)
  show ?thesis
  proof (cases s)
    case Nil
    then show ?thesis by (simp add: startsWith_def m)
  next
    case (Cons c t)
    then show ?thesis by (cases t) (auto simp: startsWith_def m)
  qed
qed

lemma asterisk_not_whitespace: "\<not> isWhiteSpace 0x2A"
  by (simp add: isWhiteSpace_def)

lemma marker_line_not_blank: "startsWith line (js ''**'') \<Longrightarrow> trim line \<noteq> []"
proof -
  assume "startsWith line (js ''**'')"
  then obtain r where line: "line = 0x2A # 0x2A # r"
    by (auto simp: startsWith_marker_iff)
  have t: "trimStart line = line"
    by (simp add: trimStart_def line asterisk_not_whitespace)
  have "\<not> list_all isWhiteSpace (rev line)"
    by (simp add: line asterisk_not_whitespace)
  then have "dropWhile isWhiteSpace (rev line) \<noteq> []"
    by (simp add: list_all_iff)
  then show ?thesis by (simp add: trim_def trimEnd_def t)
qed

lemma short_no_marker: "length s < 2 \<Longrightarrow> \<not> startsWith s (js ''**'')"
  by (auto simp: startsWith_marker_iff)

lemma stripMarkers_keeps_head: "d \<noteq> 0x2A \<Longrightarrow> stripMarkers (d # cs) = d # stripMarkers cs"
  by (cases cs) simp_all

lemma stripMarkers_no_marker: "\<not> startsWith (drop k (stripMarkers s)) (js ''**'')"
proof (induction s arbitrary: k rule: stripMarkers.induct)
  case (1 c d cs)
  show ?case
  proof (cases "c = 0x2A \<and> d = 0x2A")
    case True
    then show ?thesis using "1.IH"(1) by simp
  next
    case False
    then have eq: "stripMarkers (c # d # cs) = c # stripMarkers (d # cs)" by auto
    show ?thesis
      unfolding eq
    proof (cases k)
      case 0
      show "\<not> startsWith (drop k (c # stripMarkers (d # cs))) (js ''**'')"
      proof (cases "c = 0x2A")
        case True
        with False have "d \<noteq> 0x2A" by simp
        then show ?thesis
          using 0 by (simp add: stripMarkers_keeps_head startsWith_marker_iff)
      next
        case False
        then show ?thesis using 0 by (simp add: startsWith_marker_iff)
      qed
    next
      case (Suc m)
      then show "\<not> startsWith (drop k (c # stripMarkers (d # cs))) (js ''**'')"
        using "1.IH"(2) [OF False, of m] by simp
    qed
  qed
qed (simp_all add: short_no_marker)

lemma splitFrom_nonempty: "splitFrom sep cur s \<noteq> []"
  by (induction s arbitrary: cur) auto

lemma splitOn_nonempty: "splitOn sep s \<noteq> []"
  by (simp add: splitOn_def splitFrom_nonempty)

section \<open>Facts about the dataset\<close>

lemma pattern_ids:
  "id' pattern_missing_signer_check = js ''missing-signer-check''"
  "id' pattern_missing_owner_check = js ''missing-owner-check''"
  "id' pattern_integer_overflow = js ''integer-overflow''"
  "id' pattern_pda_seed_collision = js ''pda-seed-collision''"
  "id' pattern_unsafe_cpi = js ''unsafe-cpi''"
  "id' pattern_account_data_matching = js ''account-data-matching''"
  by (simp_all add: pattern_missing_signer_check_def pattern_missing_owner_check_def
      pattern_integer_overflow_def pattern_pda_seed_collision_def pattern_unsafe_cpi_def
      pattern_account_data_matching_def)

lemma pattern_severities:
  "severity pattern_missing_signer_check = critical"
  "severity pattern_missing_owner_check = critical"
  "severity pattern_integer_overflow = critical"
  "severity pattern_pda_seed_collision = high"
  "severity pattern_unsafe_cpi = critical"
  "severity pattern_account_data_matching = high"
  by (simp_all add: pattern_missing_signer_check_def pattern_missing_owner_check_def
      pattern_integer_overflow_def pattern_pda_seed_collision_def pattern_unsafe_cpi_def
      pattern_account_data_matching_def)

lemma securityPatterns_length: "length securityPatterns = 6"
  by (simp add: securityPatterns_def)

lemma securityPatterns_ids:
  "map id' securityPatterns =
     [js ''missing-signer-check'', js ''missing-owner-check'', js ''integer-overflow'',
      js ''pda-seed-collision'', js ''unsafe-cpi'', js ''account-data-matching'']"
  by (simp add: securityPatterns_def pattern_ids)

lemma securityPatterns_distinct_ids: "distinct (map id' securityPatterns)"
  unfolding securityPatterns_ids by simp

lemma securityPatterns_severities:
  "map severity securityPatterns = [critical, critical, critical, high, critical, high]"
  by (simp add: securityPatterns_def pattern_severities)

lemma ids_absent_iff:
  "(\<forall>p\<in>set securityPatterns. id' p \<noteq> ident) \<longleftrightarrow> ident \<notin> set (map id' securityPatterns)"
  by auto

lemma lookup_at_position:
  assumes "i < length securityPatterns"
  shows "getPatternById (id' (securityPatterns ! i)) = Some (securityPatterns ! i)"
  unfolding getPatternById_def
proof (rule array_find_first [OF assms])
  show "id' (securityPatterns ! i) = id' (securityPatterns ! i)" by simp
  show "id' (securityPatterns ! j) \<noteq> id' (securityPatterns ! i)" if "j < i" for j
    using distinct_map_nth_neq [OF securityPatterns_distinct_ids assms that] .
qed

lemma currentIndex_at_position:
  assumes "i < length securityPatterns"
  shows "currentIndex (Some (id' (securityPatterns ! i))) = int i"
proof -
  have "findIndexFrom 0 (\<lambda>p. Some (id' p) = Some (id' (securityPatterns ! i))) securityPatterns
          = 0 + int i"
  proof (rule findIndexFrom_first [OF assms])
    show "Some (id' (securityPatterns ! i)) = Some (id' (securityPatterns ! i))" by simp
    show "Some (id' (securityPatterns ! j)) \<noteq> Some (id' (securityPatterns ! i))" if "j < i" for j
      using distinct_map_nth_neq [OF securityPatterns_distinct_ids assms that] by simp
  qed
  then show ?thesis by (simp add: currentIndex_def array_findIndex_def)
qed

lemma orEmpty_Some [simp]: "orEmpty (Some s) = s"
  by (simp add: orEmpty_def)

lemma owner_check_lines:
  "splitOn 0x0A (attackScenario pattern_missing_owner_check) =
     [js '''',
      js ''**Real-World Attack Scenario:**'',
      js '''',
      js ''1. A DEX uses an oracle for price feeds'',
      js ''2. The swap function doesn't verify the price feed owner'',
      js ''3. Attacker:'',
      js ''   - Creates a new account with their keypair'',
      js ''   - Writes data: price = 1,000,000 (1000x real price)'',
      js ''   - Calls swap with 1 token in, fake price feed'',
      js ''   - Receives 1000 tokens out instead of 1'',
      js ''4. Attacker repeats until pool is drained'',
      js '''',
      js ''**Impact:** This vulnerability has caused millions in losses in DeFi protocols.'',
      js ''    '']"
  apply (simp only: pattern_missing_owner_check_def SecurityPattern.select_convs)
  apply (simp add: splitOn_def js_def)
  done

section \<open>Facts about the widget\<close>

lemma onClick_ok:
  "onClick code True w = w\<lparr>writes := writes w @ [code], clipboard := Some code, copied := True,
     timers := timers w @ [now w + 2000]\<rparr>"
  by (simp add: onClick_def handleCopy_def Let_def)

lemma onClick_rejected: "onClick code False w = w\<lparr>writes := writes w @ [code]\<rparr>"
  by (simp add: onClick_def handleCopy_def Let_def)


lemma run_Nil [simp]: "run code [] w = w"
  by (simp add: run_def)

lemma run_Cons [simp]: "run code (ev # evs) w = run code evs (step code w ev)"
  by (simp add: run_def)

lemma run_without_success:
  "\<not> copied w \<Longrightarrow> \<forall>ev\<in>set evs. ev \<noteq> Click True \<Longrightarrow>
     \<not> copied (run code evs w) \<and> clipboard (run code evs w) = clipboard w \<and>
     writes (run code evs w) = writes w @ replicate (length (filter (\<lambda>ev. ev = Click False) evs)) code"
proof (induction evs arbitrary: w)
  case Nil
  then show ?case by simp
next
  case (Cons ev evs)
  show ?case
  proof (cases ev)
    case (Click ok)
    with Cons.prems(2) have ok: "ok = False" by auto
    have "\<not> copied (onClick code False w)"
      using Cons.prems(1) by (simp add: onClick_rejected)
    from Cons.IH [OF this] Cons.prems(2) show ?thesis
      by (simp add: Click ok onClick_rejected replicate_append_same)
  next
    case (Elapse d)
    have "\<not> copied (elapse d w)"
      using Cons.prems(1) by (simp add: elapse_def)
    from Cons.IH [OF this] Cons.prems(2) show ?thesis
      by (simp add: Elapse elapse_def)
  qed
qed

section \<open>Navigation on the detail page\<close>

text \<open>
  C1. On the detail page of the record at position \<open>i\<close> of the dataset, the previous neighbour
  is the record at position \<open>i - 1\<close> and the next neighbour the record at position \<open>i + 1\<close>; the
  links point to \<open>/pattern/<id>\<close> of exactly these records. The first record has no previous
  link and the last has no next link: nothing wraps around.
\<close>

theorem detail_page_neighbours:
  "\<forall>i<length securityPatterns.
     prevPattern (Some (id' (securityPatterns ! i)))
       = (if i = 0 then None else Some (securityPatterns ! (i - 1))) \<and>
     nextPattern (Some (id' (securityPatterns ! i)))
       = (if i + 1 < length securityPatterns then Some (securityPatterns ! (i + 1)) else None) \<and>
     PatternPage (Some (id' (securityPatterns ! i)))
       = PatternDetail \<lparr>shown = securityPatterns ! i,
           scenario = attackScenarioBlock (securityPatterns ! i),
           prevLink = (if i = 0 then None
                       else Some (js ''/pattern/'' @ id' (securityPatterns ! (i - 1)),
                                  title (securityPatterns ! (i - 1)))),
           nextLink = (if i + 1 < length securityPatterns
                       then Some (js ''/pattern/'' @ id' (securityPatterns ! (i + 1)),
                                  title (securityPatterns ! (i + 1)))
                       else None)\<rparr>"
proof (intro allI impI)
  fix i
  assume i: "i < length securityPatterns"
  have prev: "prevPattern (Some (id' (securityPatterns ! i)))
                = (if i = 0 then None else Some (securityPatterns ! (i - 1)))"
    by (simp only: prevPattern_def currentIndex_at_position [OF i] array_get_prev [OF i])
  have nxt: "nextPattern (Some (id' (securityPatterns ! i)))
               = (if i + 1 < length securityPatterns then Some (securityPatterns ! (i + 1)) else None)"
    by (simp only: nextPattern_def currentIndex_at_position [OF i] array_get_next)
  have page: "PatternPage (Some (id' (securityPatterns ! i)))
       = PatternDetail \<lparr>shown = securityPatterns ! i,
           scenario = attackScenarioBlock (securityPatterns ! i),
           prevLink = map_option navLink (prevPattern (Some (id' (securityPatterns ! i)))),
           nextLink = map_option navLink (nextPattern (Some (id' (securityPatterns ! i))))\<rparr>"
    by (simp add: PatternPage_def lookup_at_position [OF i])
  show "prevPattern (Some (id' (securityPatterns ! i)))
       = (if i = 0 then None else Some (securityPatterns ! (i - 1))) \<and>
     nextPattern (Some (id' (securityPatterns ! i)))
       = (if i + 1 < length securityPatterns then Some (securityPatterns ! (i + 1)) else None) \<and>
     PatternPage (Some (id' (securityPatterns ! i)))
       = PatternDetail \<lparr>shown = securityPatterns ! i,
           scenario = attackScenarioBlock (securityPatterns ! i),
           prevLink = (if i = 0 then None
                       else Some (js ''/pattern/'' @ id' (securityPatterns ! (i - 1)),
                                  title (securityPatterns ! (i - 1)))),
           nextLink = (if i + 1 < length securityPatterns
                       then Some (js ''/pattern/'' @ id' (securityPatterns ! (i + 1)),
                                  title (securityPatterns ! (i + 1)))
                       else None)\<rparr>"
    unfolding page prev nxt by (simp add: navLink_def)
qed

theorem detail_page_neighbours_witness:
  "prevPattern (Some (js ''missing-signer-check'')) = None \<and>
   nextPattern (Some (js ''missing-signer-check'')) = Some pattern_missing_owner_check \<and>
   prevPattern (Some (js ''pda-seed-collision'')) = Some pattern_integer_overflow \<and>
   nextPattern (Some (js ''pda-seed-collision'')) = Some pattern_unsafe_cpi \<and>
   prevPattern (Some (js ''account-data-matching'')) = Some pattern_unsafe_cpi \<and>
   nextPattern (Some (js ''account-data-matching'')) = None"
proof -
  have len: "(0::nat) < length securityPatterns" "3 < length securityPatterns"
    "5 < length securityPatterns"
    by (simp_all add: securityPatterns_length)
  have at: "securityPatterns ! 0 = pattern_missing_signer_check"
    "securityPatterns ! Suc 0 = pattern_missing_owner_check"
    "securityPatterns ! 2 = pattern_integer_overflow"
    "securityPatterns ! 3 = pattern_pda_seed_collision"
    "securityPatterns ! 4 = pattern_unsafe_cpi"
    "securityPatterns ! 5 = pattern_account_data_matching"
    by (simp_all add: securityPatterns_def)
  show ?thesis
    using detail_page_neighbours [rule_format, OF len(1)]
      detail_page_neighbours [rule_format, OF len(2)]
      detail_page_neighbours [rule_format, OF len(3)]
    by (simp add: at pattern_ids securityPatterns_length)
qed

section \<open>The lookup\<close>

text \<open>
  C2. Looking up the \<open>id\<close> of any record of the dataset returns that very record.
\<close>

theorem getPatternById_round_trip:
  "\<forall>r\<in>set securityPatterns. getPatternById (id' r) = Some r"
proof
  fix r
  assume "r \<in> set securityPatterns"
  then obtain i where "i < length securityPatterns" "securityPatterns ! i = r"
    by (auto simp: in_set_conv_nth)
  then show "getPatternById (id' r) = Some r"
    using lookup_at_position [of i] by simp
qed

theorem getPatternById_round_trip_witness:
  "pattern_unsafe_cpi \<in> set securityPatterns \<and>
   getPatternById (js ''unsafe-cpi'') = Some pattern_unsafe_cpi"
proof -
  have mem: "pattern_unsafe_cpi \<in> set securityPatterns"
    by (simp add: securityPatterns_def)
  show ?thesis
    using mem getPatternById_round_trip [rule_format, OF mem] by (simp add: pattern_ids)
qed

text \<open>
  C3. The lookup is a total function into an option: it returns \<open>None\<close> (JavaScript's
  \<open>undefined\<close>), and raises nothing, exactly when no record has the identifier; and when it
  returns a record, that record is the first one in dataset order whose \<open>id\<close> equals the input.
\<close>

theorem getPatternById_first_match:
  "(getPatternById ident = None \<longleftrightarrow> (\<forall>p\<in>set securityPatterns. id' p \<noteq> ident)) \<and>
   (getPatternById ident = Some r \<longleftrightarrow>
      (\<exists>i<length securityPatterns. securityPatterns ! i = r \<and> id' r = ident \<and>
         (\<forall>j<i. id' (securityPatterns ! j) \<noteq> ident)))"
  unfolding getPatternById_def
  by (simp only: array_find_None_iff array_find_Some_iff simp_thms)

theorem getPatternById_first_match_witness:
  "getPatternById (js ''nonexistent-id'') = None \<and> getPatternById (js '''') = None"
proof -
  have "\<forall>p\<in>set securityPatterns. id' p \<noteq> js ''nonexistent-id''"
    unfolding ids_absent_iff securityPatterns_ids by simp
  moreover have "\<forall>p\<in>set securityPatterns. id' p \<noteq> js ''''"
    unfolding ids_absent_iff securityPatterns_ids by simp
  ultimately show ?thesis
    using getPatternById_first_match [of "js ''nonexistent-id''"]
      getPatternById_first_match [of "js ''''"] by blast
qed

section \<open>Copying code\<close>

text \<open>
  C4. The copy action hands the code string to the clipboard sink as it is, whether or not
  the write succeeds, and a successful write leaves exactly that string in the clipboard.
  Only the string given to the highlighter is trimmed: it is the code without the white
  space at its two ends. For \<open>"  let x = 1;\n  "\<close> the clipboard receives the string with
  its surrounding white space and the highlighter receives \<open>"let x = 1;"\<close>.
\<close>

theorem copy_sends_untrimmed_code:
  "writes (onClick code ok w) = writes w @ [code] \<and>
   clipboard (onClick code True w) = Some code \<and>
   (\<exists>pre suf. code = pre @ highlightCode code @ suf \<and>
      list_all isWhiteSpace pre \<and> list_all isWhiteSpace suf) \<and>
   (highlightCode code = [] \<or>
      (\<not> isWhiteSpace (hd (highlightCode code)) \<and> \<not> isWhiteSpace (last (highlightCode code)))) \<and>
   clipboard (onClick (js ''  let x = 1;\<newline>  '') True mount) = Some (js ''  let x = 1;\<newline>  '') \<and>
   highlightCode (js ''  let x = 1;\<newline>  '') = js ''let x = 1;''"
proof (intro conjI)
  show "writes (onClick code ok w) = writes w @ [code]"
    by (cases ok) (simp_all add: onClick_ok onClick_rejected)
  show "clipboard (onClick code True w) = Some code"
    by (simp add: onClick_ok)
  show "\<exists>pre suf. code = pre @ highlightCode code @ suf \<and>
      list_all isWhiteSpace pre \<and> list_all isWhiteSpace suf"
    unfolding highlightCode_def by (rule trim_decomp)
  show "highlightCode code = [] \<or>
      (\<not> isWhiteSpace (hd (highlightCode code)) \<and> \<not> isWhiteSpace (last (highlightCode code)))"
    unfolding highlightCode_def by (rule trim_ends)
  show "clipboard (onClick (js ''  let x = 1;\<newline>  '') True mount) = Some (js ''  let x = 1;\<newline>  '')"
    by (simp add: onClick_ok)
  show "highlightCode (js ''  let x = 1;\<newline>  '') = js ''let x = 1;''"
    by (simp add: highlightCode_def trim_def trimStart_def trimEnd_def js_def isWhiteSpace_def)
qed




text \<open>
  C6. While no clipboard write succeeds, the indicator never appears: the button keeps the
  text \<open>Copy\<close>, the clipboard is untouched, and each click makes one write attempt and no
  more. The rejection is the result of the handler alone (which the button drops); the
  widget's state holds no error.
\<close>

theorem failed_copy_is_silent:
  assumes "\<not> copied w" and "\<forall>ev\<in>set evs. ev \<noteq> Click True"
  shows "\<not> copied (run code evs w) \<and>
    buttonText (run code evs w) = js ''Copy'' \<and>
    clipboard (run code evs w) = clipboard w \<and>
    writes (run code evs w)
      = writes w @ replicate (length (filter (\<lambda>ev. ev = Click False) evs)) code \<and>
    handleCopy code False w = (Inl ClipboardRejected, w\<lparr>writes := writes w @ [code]\<rparr>)"
  using run_without_success [OF assms, of code]
  by (simp add: buttonText_def handleCopy_def Let_def)

theorem failed_copy_is_silent_witness:
  "\<not> copied mount \<and>
   \<not> copied (run (js ''let x = 1;'') [Click False, Elapse 2500, Click False] mount) \<and>
   buttonText (run (js ''let x = 1;'') [Click False, Elapse 2500, Click False] mount) = js ''Copy'' \<and>
   clipboard (run (js ''let x = 1;'') [Click False, Elapse 2500, Click False] mount) = None \<and>
   writes (run (js ''let x = 1;'') [Click False, Elapse 2500, Click False] mount)
     = [js ''let x = 1;'', js ''let x = 1;'']"
proof -
  have c: "\<not> copied mount" by (simp add: mount_def)
  have e: "\<forall>ev\<in>set [Click False, Elapse 2500, Click False]. ev \<noteq> Click True" by simp
  show ?thesis
    using c failed_copy_is_silent [OF c e, of "js ''let x = 1;''"]
    by (simp add: mount_def numeral_2_eq_2)
qed

section \<open>Rendering the attack scenario\<close>

text \<open>
  The rule of the page for any record. Each line of the attack scenario (the pieces between
  newlines) is rendered on its own. A line that itself begins with \<open>**\<close> is an emphasized
  paragraph; any other line whose trimmed text is not empty is a plain paragraph; a line
  whose trimmed text is empty renders nothing. The text of every paragraph is the line
  with every \<open>**\<close> removed, so that no \<open>**\<close> is left in it.
\<close>

lemma attackScenarioBlock_lines:
  "length (attackScenarioBlock pattern) = length (splitOn 0x0A (attackScenario pattern)) \<and>
   (\<forall>i<length (splitOn 0x0A (attackScenario pattern)).
      (startsWith (splitOn 0x0A (attackScenario pattern) ! i) (js ''**'') \<longrightarrow>
         attackScenarioBlock pattern ! i
           = Para (js ''font-semibold text-text'')
               (stripMarkers (splitOn 0x0A (attackScenario pattern) ! i))) \<and>
      (\<not> startsWith (splitOn 0x0A (attackScenario pattern) ! i) (js ''**'') \<and>
       trim (splitOn 0x0A (attackScenario pattern) ! i) \<noteq> [] \<longrightarrow>
         attackScenarioBlock pattern ! i
           = Para (js '''') (stripMarkers (splitOn 0x0A (attackScenario pattern) ! i))) \<and>
      (trim (splitOn 0x0A (attackScenario pattern) ! i) = [] \<longrightarrow>
         attackScenarioBlock pattern ! i = TextNode []) \<and>
      (\<forall>k. \<not> startsWith (drop k (stripMarkers (splitOn 0x0A (attackScenario pattern) ! i)))
              (js ''**'')))"
  by (auto simp: attackScenarioBlock_def attackScenarioLine_def stripMarkers_no_marker
      dest: marker_line_not_blank)

text \<open>
  In the authored dataset no line of an attack scenario has white space before its \<open>**\<close>: a
  line begins with \<open>**\<close> exactly when its trimmed text does.
\<close>

lemma marker_lines_missing_signer_check:
  "list_all (\<lambda>line. startsWith (trim line) (js ''**'') = startsWith line (js ''**''))
     (splitOn 0x0A (attackScenario pattern_missing_signer_check))"
  apply (simp only: pattern_missing_signer_check_def SecurityPattern.select_convs)
  apply (simp add: splitOn_def js_def trim_def trimStart_def trimEnd_def startsWith_def
      isWhiteSpace_def)
  done

lemma marker_lines_missing_owner_check:
  "list_all (\<lambda>line. startsWith (trim line) (js ''**'') = startsWith line (js ''**''))
     (splitOn 0x0A (attackScenario pattern_missing_owner_check))"
  apply (simp only: pattern_missing_owner_check_def SecurityPattern.select_convs)
  apply (simp add: splitOn_def js_def trim_def trimStart_def trimEnd_def startsWith_def
      isWhiteSpace_def)
  done

lemma marker_lines_integer_overflow:
  "list_all (\<lambda>line. startsWith (trim line) (js ''**'') = startsWith line (js ''**''))
     (splitOn 0x0A (attackScenario pattern_integer_overflow))"
  apply (simp only: pattern_integer_overflow_def SecurityPattern.select_convs)
  apply (simp add: splitOn_def js_def trim_def trimStart_def trimEnd_def startsWith_def
      isWhiteSpace_def)
  done

lemma marker_lines_pda_seed_collision:
  "list_all (\<lambda>line. startsWith (trim line) (js ''**'') = startsWith line (js ''**''))
     (splitOn 0x0A (attackScenario pattern_pda_seed_collision))"
  apply (simp only: pattern_pda_seed_collision_def SecurityPattern.select_convs)
  apply (simp add: splitOn_def js_def trim_def trimStart_def trimEnd_def startsWith_def
      isWhiteSpace_def)
  done

lemma marker_lines_unsafe_cpi:
  "list_all (\<lambda>line. startsWith (trim line) (js ''**'') = startsWith line (js ''**''))
     (splitOn 0x0A (attackScenario pattern_unsafe_cpi))"
  apply (simp only: pattern_unsafe_cpi_def SecurityPattern.select_convs)
  apply (simp add: splitOn_def js_def trim_def trimStart_def trimEnd_def startsWith_def
      isWhiteSpace_def)
  done

lemma marker_lines_account_data_matching:
  "list_all (\<lambda>line. startsWith (trim line) (js ''**'') = startsWith line (js ''**''))
     (splitOn 0x0A (attackScenario pattern_account_data_matching))"
  apply (simp only: pattern_account_data_matching_def SecurityPattern.select_convs)
  apply (simp add: splitOn_def js_def trim_def trimStart_def trimEnd_def startsWith_def
      isWhiteSpace_def)
  done

lemma dataset_marker_lines:
  "list_all (\<lambda>p. list_all (\<lambda>line. startsWith (trim line) (js ''**'') = startsWith line (js ''**''))
     (splitOn 0x0A (attackScenario p))) securityPatterns"
  unfolding securityPatterns_def
  by (simp only: list.pred_inject simp_thms marker_lines_missing_signer_check marker_lines_missing_owner_check marker_lines_integer_overflow marker_lines_pda_seed_collision marker_lines_unsafe_cpi marker_lines_account_data_matching)

text \<open>
  C7, as the code has it. On the detail page of every record of the dataset, each line of
  the attack scenario is rendered on its own: a line whose trimmed text begins with \<open>**\<close>
  is an emphasized paragraph, showing the line with every \<open>**\<close> removed, so that no \<open>**\<close>
  is left in it; every other line whose trimmed text is not empty is a plain paragraph;
  and a line whose trimmed text is empty, such as a line of spaces, renders nothing.
\<close>

theorem attack_scenario_rendering:
  "\<forall>p\<in>set securityPatterns.
     length (attackScenarioBlock p) = length (splitOn 0x0A (attackScenario p)) \<and>
     (\<forall>i<length (splitOn 0x0A (attackScenario p)).
        (startsWith (trim (splitOn 0x0A (attackScenario p) ! i)) (js ''**'') \<longrightarrow>
           attackScenarioBlock p ! i
             = Para (js ''font-semibold text-text'')
                 (stripMarkers (splitOn 0x0A (attackScenario p) ! i))) \<and>
        (\<not> startsWith (trim (splitOn 0x0A (attackScenario p) ! i)) (js ''**'') \<and>
         trim (splitOn 0x0A (attackScenario p) ! i) \<noteq> [] \<longrightarrow>
           attackScenarioBlock p ! i
             = Para (js '''') (stripMarkers (splitOn 0x0A (attackScenario p) ! i))) \<and>
        (trim (splitOn 0x0A (attackScenario p) ! i) = [] \<longrightarrow>
           attackScenarioBlock p ! i = TextNode []) \<and>
        (\<forall>k. \<not> startsWith (drop k (stripMarkers (splitOn 0x0A (attackScenario p) ! i)))
                (js ''**'')))"
proof (intro ballI conjI allI impI)
  fix p
  assume p: "p \<in> set securityPatterns"
  show "length (attackScenarioBlock p) = length (splitOn 0x0A (attackScenario p))"
    by (simp add: attackScenarioBlock_def)
  fix i
  assume i: "i < length (splitOn 0x0A (attackScenario p))"
  let ?line = "splitOn 0x0A (attackScenario p) ! i"
  have "?line \<in> set (splitOn 0x0A (attackScenario p))"
    using i by simp
  then have same: "startsWith (trim ?line) (js ''**'') = startsWith ?line (js ''**'')"
    using dataset_marker_lines p by (auto simp: list_all_iff)
  note r = attackScenarioBlock_lines [of p, THEN conjunct2, rule_format, OF i]
  show "attackScenarioBlock p ! i = Para (js ''font-semibold text-text'') (stripMarkers ?line)"
    if "startsWith (trim ?line) (js ''**'')"
    using r that same by simp
  show "attackScenarioBlock p ! i = Para (js '''') (stripMarkers ?line)"
    if "\<not> startsWith (trim ?line) (js ''**'') \<and> trim ?line \<noteq> []"
    using r that same by simp
  show "attackScenarioBlock p ! i = TextNode []" if "trim ?line = []"
    using r that by simp
  show "\<not> startsWith (drop k (stripMarkers ?line)) (js ''**'')" for k
    by (rule stripMarkers_no_marker)
qed

theorem attack_scenario_rendering_witness:
  "pattern_missing_owner_check \<in> set securityPatterns \<and>
   (1::nat) < length (splitOn 0x0A (attackScenario pattern_missing_owner_check)) \<and>
   attackScenarioBlock pattern_missing_owner_check ! 1
     = Para (js ''font-semibold text-text'') (js ''Real-World Attack Scenario:'') \<and>
   attackScenarioBlock pattern_missing_owner_check ! 3
     = Para (js '''') (js ''1. A DEX uses an oracle for price feeds'') \<and>
   attackScenarioBlock pattern_missing_owner_check ! 0 = TextNode []"
proof -
  let ?lines = "splitOn 0x0A (attackScenario pattern_missing_owner_check)"
  have mem: "pattern_missing_owner_check \<in> set securityPatterns"
    by (simp add: securityPatterns_def)
  have len: "(0::nat) < length ?lines" "(1::nat) < length ?lines" "(3::nat) < length ?lines"
    by (simp_all add: owner_check_lines)
  have l0: "trim (?lines ! 0) = []"
    by (simp add: owner_check_lines trim_def trimStart_def trimEnd_def)
  have l1: "startsWith (trim (?lines ! Suc 0)) (js ''**'')"
    by (simp add: owner_check_lines startsWith_def trim_def trimStart_def trimEnd_def js_def
        isWhiteSpace_def)
  have s1: "stripMarkers (?lines ! Suc 0) = js ''Real-World Attack Scenario:''"
    by (simp add: owner_check_lines js_def)
  have l3: "\<not> startsWith (trim (?lines ! 3)) (js ''**'') \<and> trim (?lines ! 3) \<noteq> []"
    by (simp add: owner_check_lines startsWith_def trim_def trimStart_def trimEnd_def js_def
        isWhiteSpace_def)
  have s3: "stripMarkers (?lines ! 3) = js ''1. A DEX uses an oracle for price feeds''"
    by (simp add: owner_check_lines js_def)
  note r = attack_scenario_rendering [THEN bspec, OF mem, THEN conjunct2, rule_format]
  show ?thesis
    using mem len(2) r [OF len(1)] r [OF len(2)] r [OF len(3)] l0 l1 l3 by (simp add: s1 s3)
qed

text \<open>
  C7 as stated fails on the last line of the owner-check scenario, and so of every authored
  scenario: the line is four spaces, so it is not empty and its trimmed text does not
  begin with \<open>**\<close>, and yet it is rendered as nothing, not as a plain paragraph.
\<close>

theorem attack_scenario_blank_line_counterexample:
  "pattern_missing_owner_check \<in> set securityPatterns \<and>
   (13::nat) < length (splitOn 0x0A (attackScenario pattern_missing_owner_check)) \<and>
   splitOn 0x0A (attackScenario pattern_missing_owner_check) ! 13 = js ''    '' \<and>
   js ''    '' \<noteq> [] \<and>
   \<not> startsWith (trim (js ''    '')) (js ''**'') \<and>
   attackScenarioBlock pattern_missing_owner_check ! 13 = TextNode []"
  by (simp add: securityPatterns_def attackScenarioBlock_def owner_check_lines
      attackScenarioLine_def startsWith_def trim_def trimStart_def trimEnd_def js_def
      isWhiteSpace_def)

section \<open>Figures of the dataset\<close>

text \<open>
  C8. The first figure of the home page is the length of the dataset, whatever the dataset
  is, and the other three are fixed strings; on the authored dataset the figure is 6.
\<close>

theorem home_page_pattern_count:
  "map value' (stats patterns) =
     [StatNumber (length patterns), StatString (js ''6+''), StatString (js ''12+''),
      StatString (js ''30+'')] \<and>
   map value' HomePage_stats =
     [StatNumber 6, StatString (js ''6+''), StatString (js ''12+''), StatString (js ''30+'')]"
  by (simp add: HomePage_stats_def stats_def securityPatterns_length)

text \<open>
  C9. No two records of the dataset, at different positions, have the same \<open>id\<close>.
\<close>

theorem ids_unique:
  "\<forall>i<length securityPatterns. \<forall>j<length securityPatterns.
     i \<noteq> j \<longrightarrow> id' (securityPatterns ! i) \<noteq> id' (securityPatterns ! j)"
  using securityPatterns_distinct_ids nth_eq_iff_index_eq [of "map id' securityPatterns"]
  by auto

theorem ids_unique_witness:
  "(0::nat) < length securityPatterns \<and> 5 < length securityPatterns \<and> (0::nat) \<noteq> 5 \<and>
   id' (securityPatterns ! 0) \<noteq> id' (securityPatterns ! 5) \<and>
   js ''missing-signer-check'' \<noteq> js ''account-data-matching''"
proof -
  have len: "(0::nat) < length securityPatterns" "5 < length securityPatterns"
    by (simp_all add: securityPatterns_length)
  have ne: "(0::nat) \<noteq> 5" by simp
  show ?thesis
    using len ne ids_unique [rule_format, OF len(1) len(2) ne] by simp
qed

text \<open>
  C10. Four records are critical and two are high; none is medium, so no record of the
  dataset is shown with the styling that \<open>severityColors\<close> keeps for medium.
\<close>

theorem dataset_severities:
  "map severity securityPatterns = [critical, critical, critical, high, critical, high] \<and>
   list_all (\<lambda>p. severity p = critical \<or> severity p = high) securityPatterns \<and>
   length (filter (\<lambda>p. severity p = critical) securityPatterns) = 4 \<and>
   length (filter (\<lambda>p. severity p = high) securityPatterns) = 2 \<and>
   filter (\<lambda>p. severity p = medium) securityPatterns = [] \<and>
   severityColors medium \<notin> set (map (\<lambda>p. severityColors (severity p)) securityPatterns)"
  by (simp add: securityPatterns_def pattern_severities)

end
